theory Spec2Isabelle
  imports Main
begin

section \<open>Python values shared by the managers\<close>

text \<open>
  A Python \<^verbatim>\<open>str\<close> is a sequence of Unicode code points, so it is modelled as a list of
  natural numbers. \<open>lit\<close> embeds an ASCII literal of the source.
\<close>

type_synonym pystr = "nat list"

definition lit :: "string \<Rightarrow> pystr" where
  "lit s = map of_char s"

text \<open>The exceptions that the modelled code can raise.\<close>

datatype error =
  NameError pystr | TypeError | ValueError | IndexError | ZeroDivisionError | UnicodeEncodeError

text \<open>\<^verbatim>\<open>s.startswith(p)\<close> and the substring test \<^verbatim>\<open>q in s\<close>.\<close>

definition startswith :: "pystr \<Rightarrow> pystr \<Rightarrow> bool" where
  "startswith s p = (take (length p) s = p)"

fun str_in :: "pystr \<Rightarrow> pystr \<Rightarrow> bool" where
  "str_in q [] = (q = [])"
| "str_in q (c # cs) = (startswith (c # cs) q \<or> str_in q cs)"

text \<open>
  \<^verbatim>\<open>str.lower\<close> is a function of the Unicode tables of the interpreter; the search
  functions take it as the parameter \<open>lower\<close>. \<open>ascii_lower\<close> is what it does on ASCII
  text and is used where a concrete input is evaluated.
\<close>

definition ascii_lower :: "pystr \<Rightarrow> pystr" where
  "ascii_lower s = map (\<lambda>c. if 65 \<le> c \<and> c \<le> 90 then c + 32 else c) s"

text \<open>The slice \<^verbatim>\<open>xs[:k]\<close>; a negative \<open>k\<close> counts from the end.\<close>

definition slice_to :: "int \<Rightarrow> 'a list \<Rightarrow> 'a list" where
  "slice_to k xs = (if 0 \<le> k then take (nat k) xs else take (length xs - nat (- k)) xs)"

text \<open>\<^verbatim>\<open>v or d\<close> for an optional string: \<^verbatim>\<open>None\<close> and the empty string are falsy.\<close>

definition py_or :: "pystr option \<Rightarrow> pystr \<Rightarrow> pystr" where
  "py_or v d = (case v of None \<Rightarrow> d | Some x \<Rightarrow> if x = [] then d else x)"

text \<open>
  The managers write their files as UTF-8 text with \<^verbatim>\<open>ensure_ascii=False\<close>. The codec
  encodes a string when none of its code points is a surrogate (U+D800 to U+DFFF) and
  raises \<^verbatim>\<open>UnicodeEncodeError\<close> otherwise. A code point of Python is at most U+10FFFF.
\<close>

definition encodable :: "pystr \<Rightarrow> bool" where
  "encodable s = list_all (\<lambda>c. c < 0xD800 \<or> (0xDFFF < c \<and> c \<le> 0x10FFFF)) s"

text \<open>
  What a method returns after its call of \<^verbatim>\<open>_save\<close>: the state that \<^verbatim>\<open>_save\<close> left, and the
  value \<open>v\<close> unless \<^verbatim>\<open>_save\<close> raised.
\<close>

definition returning :: "'s \<times> error option \<Rightarrow> 'a \<Rightarrow> 's \<times> (error + 'a)" where
  "returning saved v = (fst saved, case snd saved of None \<Rightarrow> Inr v | Some e \<Rightarrow> Inl e)"


section \<open>bookmarks.py\<close>

record Bookmark =
  b_url :: pystr
  b_title :: pystr
  b_folder :: pystr
  b_favicon :: pystr
  b_created_at :: pystr

text \<open>\<^verbatim>\<open>Bookmark.__init__\<close>; \<open>now\<close> is \<^verbatim>\<open>datetime.now().isoformat()\<close>.\<close>

definition Bookmark_init ::
  "pystr \<Rightarrow> pystr \<Rightarrow> pystr \<Rightarrow> pystr \<Rightarrow> pystr \<Rightarrow> pystr option \<Rightarrow> Bookmark" where
  "Bookmark_init now url title folder favicon created_at =
     \<lparr> b_url = url,
       b_title = title,
       b_folder = folder,
       b_favicon = favicon,
       b_created_at = py_or created_at now \<rparr>"

text \<open>
  A \<^verbatim>\<open>dict\<close> from strings to strings, in insertion order; its keys are distinct.
\<close>

type_synonym pydict = "(pystr \<times> pystr) list"

definition to_dict :: "Bookmark \<Rightarrow> pydict" where
  "to_dict b =
     [(lit ''url'', b_url b),
      (lit ''title'', b_title b),
      (lit ''folder'', b_folder b),
      (lit ''favicon'', b_favicon b),
      (lit ''created_at'', b_created_at b)]"

text \<open>
  \<^verbatim>\<open>Bookmark.from_dict\<close> is \<^verbatim>\<open>cls(**data)\<close>: a key that is no parameter of the
  constructor and a missing \<^verbatim>\<open>url\<close> or \<^verbatim>\<open>title\<close> raise \<^verbatim>\<open>TypeError\<close>; a missing optional
  key takes the default of the constructor.
\<close>

definition from_dict :: "pystr \<Rightarrow> pydict \<Rightarrow> error + Bookmark" where
  "from_dict now data =
     (if \<exists>k \<in> set (map fst data).
           k \<notin> set [lit ''url'', lit ''title'', lit ''folder'', lit ''favicon'', lit ''created_at'']
      then Inl TypeError
      else (case map_of data (lit ''url'') of
              None \<Rightarrow> Inl TypeError
            | Some url \<Rightarrow>
               (case map_of data (lit ''title'') of
                  None \<Rightarrow> Inl TypeError
                | Some title \<Rightarrow>
                    Inr (Bookmark_init now url title
                          (case map_of data (lit ''folder'') of None \<Rightarrow> lit ''default'' | Some f \<Rightarrow> f)
                          (case map_of data (lit ''favicon'') of None \<Rightarrow> [] | Some f \<Rightarrow> f)
                          (map_of data (lit ''created_at''))))))"

text \<open>
  The content of \<^verbatim>\<open>bookmarks.json\<close>: absent, a text on which \<^verbatim>\<open>json.load\<close> (or the
  access to the document) raises, or a document whose keys \<^verbatim>\<open>bookmarks\<close> and
  \<^verbatim>\<open>folders\<close> may each be missing. \<^verbatim>\<open>json.dump\<close> followed by \<^verbatim>\<open>json.load\<close> returns the
  dumped document when the text could be written, so the file then holds the document
  itself. The file system is taken to work.
\<close>

datatype BookmarksFile = NoFile | Unreadable | Doc "pydict list option" "pydict option"

record BookmarkManager =
  bm_bookmarks :: "Bookmark list"
  bm_folders :: pydict
  bm_file :: BookmarksFile

text \<open>
  The comprehension \<^verbatim>\<open>[Bookmark.from_dict(b) for b in ...]\<close>; \<open>clock i\<close> is the reading of
  the clock while the \<open>i\<close>-th bookmark is built. The first error ends it.
\<close>

fun load_bookmarks :: "(nat \<Rightarrow> pystr) \<Rightarrow> nat \<Rightarrow> pydict list \<Rightarrow> error + Bookmark list" where
  "load_bookmarks clock i [] = Inr []"
| "load_bookmarks clock i (d # ds) =
     (case from_dict (clock i) d of
        Inl e \<Rightarrow> Inl e
      | Inr b \<Rightarrow> (case load_bookmarks clock (Suc i) ds of
                    Inl e \<Rightarrow> Inl e
                  | Inr bs \<Rightarrow> Inr (b # bs)))"

text \<open>
  \<^verbatim>\<open>_load\<close>: nothing changes without a file; any exception empties the bookmark list and
  leaves the folders as they are.
\<close>

definition BookmarkManager_load :: "(nat \<Rightarrow> pystr) \<Rightarrow> BookmarkManager \<Rightarrow> BookmarkManager" where
  "BookmarkManager_load clock s =
     (case bm_file s of
        NoFile \<Rightarrow> s
      | Unreadable \<Rightarrow> s\<lparr>bm_bookmarks := []\<rparr>
      | Doc bs fs \<Rightarrow>
          (case load_bookmarks clock 0 (case bs of None \<Rightarrow> [] | Some l \<Rightarrow> l) of
             Inl e \<Rightarrow> s\<lparr>bm_bookmarks := []\<rparr>
           | Inr bl \<Rightarrow> s\<lparr>bm_bookmarks := bl,
                          bm_folders := (case fs of None \<Rightarrow> bm_folders s | Some f \<Rightarrow> f)\<rparr>))"

text \<open>
  \<^verbatim>\<open>_save\<close> opens the file for writing, which empties it, and dumps the document piece by
  piece. When a string of the document cannot be encoded, the write of that piece raises
  \<^verbatim>\<open>UnicodeEncodeError\<close> and the file keeps a proper prefix of the text of a JSON object,
  which \<^verbatim>\<open>json.load\<close> rejects. The keys that \<open>to_dict\<close> writes are ASCII.
\<close>

definition dict_encodable :: "pydict \<Rightarrow> bool" where
  "dict_encodable d = list_all (\<lambda>kv. encodable (fst kv) \<and> encodable (snd kv)) d"

definition BookmarkManager_save :: "BookmarkManager \<Rightarrow> BookmarkManager \<times> error option" where
  "BookmarkManager_save s =
     (let bookmarks = map to_dict (bm_bookmarks s);
          folders = bm_folders s
      in if list_all dict_encodable bookmarks \<and> dict_encodable folders
         then (s\<lparr>bm_file := Doc (Some bookmarks) (Some folders)\<rparr>, None)
         else (s\<lparr>bm_file := Unreadable\<rparr>, Some UnicodeEncodeError))"

definition BookmarkManager_init :: "(nat \<Rightarrow> pystr) \<Rightarrow> BookmarksFile \<Rightarrow> BookmarkManager" where
  "BookmarkManager_init clock file =
     BookmarkManager_load clock
       \<lparr> bm_bookmarks = [],
         bm_folders = [(lit ''default'', lit ''Default''), (lit ''work'', lit ''Work''),
                       (lit ''personal'', lit ''Personal'')],
         bm_file = file \<rparr>"

text \<open>
  The operations change the lists in memory and then save; when \<^verbatim>\<open>_save\<close> raises, the
  exception leaves the method with the change in memory made.
\<close>

definition BookmarkManager_add ::
  "pystr \<Rightarrow> pystr \<Rightarrow> pystr \<Rightarrow> pystr \<Rightarrow> pystr \<Rightarrow> BookmarkManager
     \<Rightarrow> BookmarkManager \<times> (error + Bookmark)" where
  "BookmarkManager_add now url title folder favicon s =
     (let bookmark = Bookmark_init now url title folder favicon None;
          s1 = s\<lparr>bm_bookmarks := bookmark # bm_bookmarks s\<rparr>
      in returning (BookmarkManager_save s1) bookmark)"

definition BookmarkManager_remove ::
  "pystr \<Rightarrow> BookmarkManager \<Rightarrow> BookmarkManager \<times> (error + bool)" where
  "BookmarkManager_remove url s =
     (let initial_len = length (bm_bookmarks s);
          s1 = s\<lparr>bm_bookmarks := filter (\<lambda>b. b_url b \<noteq> url) (bm_bookmarks s)\<rparr>
      in if length (bm_bookmarks s1) < initial_len then returning (BookmarkManager_save s1) True
         else (s1, Inr False))"

definition BookmarkManager_get_all :: "BookmarkManager \<Rightarrow> Bookmark list" where
  "BookmarkManager_get_all s = bm_bookmarks s"

definition BookmarkManager_search ::
  "(pystr \<Rightarrow> pystr) \<Rightarrow> pystr \<Rightarrow> BookmarkManager \<Rightarrow> Bookmark list" where
  "BookmarkManager_search lower query s =
     (let query = lower query
      in filter (\<lambda>b. str_in query (lower (b_title b)) \<or> str_in query (lower (b_url b)))
           (bm_bookmarks s))"

definition add_folder ::
  "pystr \<Rightarrow> pystr option \<Rightarrow> BookmarkManager \<Rightarrow> BookmarkManager \<times> (error + unit)" where
  "add_folder name display_name s =
     (if name \<notin> fst ` set (bm_folders s)
      then returning
             (BookmarkManager_save
                (s\<lparr>bm_folders := bm_folders s @ [(name, py_or display_name name)]\<rparr>)) ()
      else (s, Inr ()))"

definition remove_folder :: "pystr \<Rightarrow> BookmarkManager \<Rightarrow> BookmarkManager \<times> (error + unit)" where
  "remove_folder name s =
     (if name \<in> fst ` set (bm_folders s) \<and> name \<noteq> lit ''default''
      then returning
             (BookmarkManager_save
                (s\<lparr>bm_folders := filter (\<lambda>kv. fst kv \<noteq> name) (bm_folders s),
                   bm_bookmarks := map (\<lambda>b. if b_folder b = name then b\<lparr>b_folder := lit ''default''\<rparr>
                                             else b)
                                     (bm_bookmarks s)\<rparr>)) ()
      else (s, Inr ()))"

text \<open>
  The states of a manager: built by \<^verbatim>\<open>__init__\<close> from any file content and changed by the
  public operations, whether they return or raise. A reading of the clock is an ISO time
  stamp, which is never empty.
\<close>

inductive reachable :: "BookmarkManager \<Rightarrow> bool" where
  r_init: "(\<forall>i. clock i \<noteq> []) \<Longrightarrow> reachable (BookmarkManager_init clock content)"
| r_add: "reachable s \<Longrightarrow> now \<noteq> [] \<Longrightarrow>
     reachable (fst (BookmarkManager_add now url title folder favicon s))"
| r_remove: "reachable s \<Longrightarrow> reachable (fst (BookmarkManager_remove url s))"
| r_add_folder: "reachable s \<Longrightarrow> reachable (fst (add_folder name display_name s))"
| r_remove_folder: "reachable s \<Longrightarrow> reachable (fst (remove_folder name s))"

text \<open>A manager started without a file, after one \<open>add\<close>.\<close>

definition example_bookmarks :: BookmarkManager where
  "example_bookmarks =
     fst (BookmarkManager_add (lit ''2024-05-01T10:00:00'') (lit ''https://example.com'')
            (lit ''Example'') (lit ''default'') []
            (BookmarkManager_init (\<lambda>i. lit ''2024-05-01T09:00:00'') NoFile))"

text \<open>
  The same start, with a url that ends in the lone surrogate U+D800; and what the
  documents of a state must be for \<^verbatim>\<open>_save\<close> to write them.
\<close>

definition surrogate_bookmarks :: BookmarkManager where
  "surrogate_bookmarks =
     fst (BookmarkManager_add (lit ''2024-05-01T10:00:00'') (lit ''https://example.com/'' @ [0xD800])
            (lit ''Example'') (lit ''default'') []
            (BookmarkManager_init (\<lambda>i. lit ''2024-05-01T09:00:00'') NoFile))"

definition state_encodable :: "BookmarkManager \<Rightarrow> bool" where
  "state_encodable s =
     (list_all dict_encodable (map to_dict (bm_bookmarks s)) \<and> dict_encodable (bm_folders s))"


section \<open>history.py\<close>

record HistoryEntry =
  h_url :: pystr
  h_title :: pystr
  h_visit_count :: int
  h_last_visit :: pystr
  h_favicon :: pystr
  h_first_visit :: pystr

text \<open>
  \<^verbatim>\<open>HistoryEntry.__init__\<close>; \<open>now1\<close> and \<open>now2\<close> are the two readings of the clock that
  fill a missing \<^verbatim>\<open>last_visit\<close>.
\<close>

definition HistoryEntry_init ::
  "pystr \<Rightarrow> pystr \<Rightarrow> pystr \<Rightarrow> pystr \<Rightarrow> int \<Rightarrow> pystr option \<Rightarrow> pystr \<Rightarrow> HistoryEntry" where
  "HistoryEntry_init now1 now2 url title visit_count last_visit favicon =
     \<lparr> h_url = url,
       h_title = title,
       h_visit_count = visit_count,
       h_last_visit = py_or last_visit now1,
       h_favicon = favicon,
       h_first_visit = py_or last_visit now2 \<rparr>"

text \<open>
  The manager and its file; \<^verbatim>\<open>to_dict\<close> lists every field of an entry, so the persisted
  array is modelled as the list of the entries. The write is modelled for documents that
  can be encoded; when \<^verbatim>\<open>_save\<close> raises, the list in memory is the one given here.
\<close>

record HistoryManager =
  hm_history :: "HistoryEntry list"
  hm_max_entries :: int
  hm_file :: "HistoryEntry list option"

definition HistoryManager_save :: "HistoryManager \<Rightarrow> HistoryManager" where
  "HistoryManager_save s = s\<lparr>hm_file := Some (hm_history s)\<rparr>"

text \<open>
  The loop of \<^verbatim>\<open>HistoryManager.add\<close>. \<open>seen\<close> holds the entries already passed. At the
  first entry with the url the loop updates it, takes it out of the list
  (\<^verbatim>\<open>self.history.remove(entry)\<close> finds the object itself, entries have no \<^verbatim>\<open>__eq__\<close>),
  puts it in front and returns; \<open>None\<close> means that the loop ran to its end.
\<close>

fun add_loop ::
  "pystr \<Rightarrow> pystr \<Rightarrow> pystr \<Rightarrow> HistoryEntry list \<Rightarrow> HistoryEntry list \<Rightarrow> HistoryEntry list option" where
  "add_loop now url title seen [] = None"
| "add_loop now url title seen (entry # rest) =
     (if h_url entry = url
      then Some (entry\<lparr>h_visit_count := h_visit_count entry + 1,
                       h_last_visit := now,
                       h_title := (if title = [] then h_title entry else title)\<rparr>
                 # (seen @ rest))
      else add_loop now url title (seen @ [entry]) rest)"

definition HistoryManager_add ::
  "pystr \<Rightarrow> pystr \<Rightarrow> pystr \<Rightarrow> pystr \<Rightarrow> pystr \<Rightarrow> HistoryManager \<Rightarrow> HistoryManager" where
  "HistoryManager_add now1 now2 url title favicon s =
     (case add_loop now1 url title [] (hm_history s) of
        Some h \<Rightarrow> HistoryManager_save (s\<lparr>hm_history := h\<rparr>)
      | None \<Rightarrow>
          (let entry = HistoryEntry_init now1 now2 url (if title = [] then url else title) 1 None favicon;
               h = entry # hm_history s;
               h = (if int (length h) > hm_max_entries s then slice_to (hm_max_entries s) h else h)
           in HistoryManager_save (s\<lparr>hm_history := h\<rparr>)))"

definition HistoryManager_remove :: "pystr \<Rightarrow> HistoryManager \<Rightarrow> HistoryManager \<times> bool" where
  "HistoryManager_remove url s =
     (let initial_len = length (hm_history s);
          s1 = s\<lparr>hm_history := filter (\<lambda>h. h_url h \<noteq> url) (hm_history s)\<rparr>
      in if length (hm_history s1) < initial_len then (HistoryManager_save s1, True)
         else (s1, False))"

definition HistoryManager_clear :: "HistoryManager \<Rightarrow> HistoryManager" where
  "HistoryManager_clear s = HistoryManager_save (s\<lparr>hm_history := []\<rparr>)"

definition HistoryManager_get_all :: "int \<Rightarrow> HistoryManager \<Rightarrow> HistoryEntry list" where
  "HistoryManager_get_all limit s = slice_to limit (hm_history s)"

definition HistoryManager_search ::
  "(pystr \<Rightarrow> pystr) \<Rightarrow> pystr \<Rightarrow> int \<Rightarrow> HistoryManager \<Rightarrow> HistoryEntry list" where
  "HistoryManager_search lower query limit s =
     (let query = lower query
      in slice_to limit
           (filter (\<lambda>h. str_in query (lower (h_title h)) \<or> str_in query (lower (h_url h)))
              (hm_history s)))"

text \<open>The update that \<open>add_loop\<close> applies to the entry it finds.\<close>

definition visit :: "pystr \<Rightarrow> pystr \<Rightarrow> HistoryEntry \<Rightarrow> HistoryEntry" where
  "visit now title e =
     e\<lparr>h_visit_count := h_visit_count e + 1, h_last_visit := now,
       h_title := (if title = [] then h_title e else title)\<rparr>"

text \<open>A history of two entries, used to evaluate the operations.\<close>

definition example_history :: HistoryManager where
  "example_history =
     \<lparr>hm_history =
        [HistoryEntry_init (lit ''t2'') (lit ''t2'') (lit ''a.org'') (lit ''A'') 1 None [],
         HistoryEntry_init (lit ''t1'') (lit ''t1'') (lit ''b.org'') (lit ''B'') 1 None []],
      hm_max_entries = 10000, hm_file = None\<rparr>"


section \<open>productivity/todo\_manager.py\<close>

record Subtask =
  st_id :: pystr
  st_text :: pystr
  st_completed :: bool
  st_created_at :: pystr

record Todo =
  t_id :: pystr
  t_text :: pystr
  t_priority :: pystr
  t_status :: pystr
  t_due_date :: "pystr option"
  t_category :: pystr
  t_tags :: "pystr list"
  t_created_at :: pystr
  t_updated_at :: pystr
  t_completed_at :: "pystr option"
  t_subtasks :: "Subtask list"
  t_notes :: pystr
  t_reminder :: "pystr option"
  t_repeat :: "pystr option"

text \<open>
  \<^verbatim>\<open>Todo.__init__\<close>. The identifier comes from \<^verbatim>\<open>uuid.uuid4()\<close> and the two time stamps
  from two readings of the clock; they are the arguments \<open>uid\<close>, \<open>now1\<close> and \<open>now2\<close>.
  \<^verbatim>\<open>tags or []\<close> replaces a missing or empty tag list by the empty list.
\<close>

definition Todo_init ::
  "pystr \<Rightarrow> pystr \<Rightarrow> pystr \<Rightarrow> pystr \<Rightarrow> pystr \<Rightarrow> pystr option \<Rightarrow> pystr \<Rightarrow> pystr list option \<Rightarrow> Todo" where
  "Todo_init uid now1 now2 text priority due_date category tags =
     \<lparr> t_id = uid,
       t_text = text,
       t_priority = priority,
       t_status = lit ''pending'',
       t_due_date = due_date,
       t_category = category,
       t_tags = (case tags of None \<Rightarrow> [] | Some ts \<Rightarrow> if ts = [] then [] else ts),
       t_created_at = now1,
       t_updated_at = now2,
       t_completed_at = None,
       t_subtasks = [],
       t_notes = [],
       t_reminder = None,
       t_repeat = None \<rparr>"

text \<open>
  The document of \<^verbatim>\<open>todos.json\<close>: \<^verbatim>\<open>Todo.to_dict\<close> lists every field of the todo, so the
  persisted array is modelled as the list of the todos themselves. The write is modelled
  for documents that can be encoded; when \<^verbatim>\<open>_save\<close> raises, the lists in memory are the
  ones given here.
\<close>

record TodoDoc =
  doc_todos :: "Todo list"
  doc_categories :: "pystr list"

record TodoManager =
  tm_todos :: "Todo list"
  tm_categories :: "pystr list"
  tm_file :: "TodoDoc option"

definition TodoManager_save :: "TodoManager \<Rightarrow> TodoManager" where
  "TodoManager_save s =
     s\<lparr>tm_file := Some \<lparr>doc_todos = tm_todos s, doc_categories = tm_categories s\<rparr>\<rparr>"

definition TodoManager_add ::
  "pystr \<Rightarrow> pystr \<Rightarrow> pystr \<Rightarrow> pystr \<Rightarrow> pystr \<Rightarrow> pystr option \<Rightarrow> pystr \<Rightarrow> pystr list option
     \<Rightarrow> TodoManager \<Rightarrow> TodoManager \<times> Todo" where
  "TodoManager_add uid now1 now2 text priority due_date category tags s =
     (let todo = Todo_init uid now1 now2 text priority due_date category tags;
          s1 = s\<lparr>tm_todos := tm_todos s @ [todo]\<rparr>
      in (TodoManager_save s1, todo))"

definition TodoManager_remove :: "pystr \<Rightarrow> TodoManager \<Rightarrow> TodoManager \<times> bool" where
  "TodoManager_remove todo_id s =
     (let initial_len = length (tm_todos s);
          s1 = s\<lparr>tm_todos := filter (\<lambda>t. t_id t \<noteq> todo_id) (tm_todos s)\<rparr>
      in if length (tm_todos s1) < initial_len then (TodoManager_save s1, True)
         else (s1, False))"

text \<open>\<^verbatim>\<open>TodoManager.get\<close>: the loop returns the first todo with the identifier.\<close>

fun get_loop :: "pystr \<Rightarrow> Todo list \<Rightarrow> Todo option" where
  "get_loop todo_id [] = None"
| "get_loop todo_id (todo # rest) =
     (if t_id todo = todo_id then Some todo else get_loop todo_id rest)"

definition TodoManager_get :: "pystr \<Rightarrow> TodoManager \<Rightarrow> Todo option" where
  "TodoManager_get todo_id s = get_loop todo_id (tm_todos s)"

definition TodoManager_get_all :: "TodoManager \<Rightarrow> Todo list" where
  "TodoManager_get_all s = tm_todos s"

definition TodoManager_search :: "(pystr \<Rightarrow> pystr) \<Rightarrow> pystr \<Rightarrow> TodoManager \<Rightarrow> Todo list" where
  "TodoManager_search lower query s =
     (let query = lower query
      in filter (\<lambda>t. str_in query (lower (t_text t)) \<or> str_in query (lower (t_notes t)))
           (tm_todos s))"

definition TodoManager_add_category :: "pystr \<Rightarrow> TodoManager \<Rightarrow> TodoManager" where
  "TodoManager_add_category category s =
     (if category \<notin> set (tm_categories s)
      then TodoManager_save (s\<lparr>tm_categories := tm_categories s @ [category]\<rparr>)
      else s)"

text \<open>
  \<^verbatim>\<open>list.remove\<close> deletes the first occurrence; the loop then moves the todos of the
  removed category to \<^verbatim>\<open>'default'\<close>.
\<close>

definition TodoManager_remove_category :: "pystr \<Rightarrow> TodoManager \<Rightarrow> TodoManager \<times> bool" where
  "TodoManager_remove_category category s =
     (if category \<in> set (tm_categories s) \<and> category \<noteq> lit ''default''
      then (TodoManager_save
              (s\<lparr>tm_categories := remove1 category (tm_categories s),
                 tm_todos := map (\<lambda>t. if t_category t = category
                                       then t\<lparr>t_category := lit ''default''\<rparr> else t)
                               (tm_todos s)\<rparr>), True)
      else (s, False))"


text \<open>
  \<^verbatim>\<open>_load\<close> and \<^verbatim>\<open>__init__\<close>. Without a file nothing is read. A document written by
  \<^verbatim>\<open>_save\<close> lists every field of every todo, and \<^verbatim>\<open>Todo.from_dict\<close> restores such a todo
  as it was; documents with missing keys are not modelled.
\<close>

definition TodoManager_load :: "TodoManager \<Rightarrow> TodoManager" where
  "TodoManager_load s =
     (case tm_file s of
        None \<Rightarrow> s
      | Some doc \<Rightarrow> s\<lparr>tm_todos := doc_todos doc, tm_categories := doc_categories doc\<rparr>)"

definition TodoManager_init :: "TodoDoc option \<Rightarrow> TodoManager" where
  "TodoManager_init content =
     TodoManager_load
       \<lparr> tm_todos = [],
         tm_categories = [lit ''default'', lit ''work'', lit ''personal'', lit ''shopping'',
                          lit ''health''],
         tm_file = content \<rparr>"

text \<open>A manager holding one todo, used to evaluate the operations.\<close>

definition example_todos :: TodoManager where
  "example_todos =
     \<lparr>tm_todos = [Todo_init (lit ''aaaaaaaa'') (lit ''t0'') (lit ''t0'') (lit ''tea'')
                    (lit ''medium'') None (lit ''default'') None],
      tm_categories = [lit ''default'', lit ''shopping''], tm_file = None\<rparr>"


section \<open>Folders and categories of stored entities\<close>

text \<open>
  Every stored bookmark is filed under a key of the folders, and every stored todo under
  one of the categories.
\<close>

definition folders_exist :: "BookmarkManager \<Rightarrow> bool" where
  "folders_exist s = (\<forall>b \<in> set (bm_bookmarks s). b_folder b \<in> fst ` set (bm_folders s))"

definition categories_exist :: "TodoManager \<Rightarrow> bool" where
  "categories_exist m = (\<forall>t \<in> set (tm_todos m). t_category t \<in> set (tm_categories m))"


section \<open>Searching\<close>

text \<open>
  The specification's wording of a match, stated on the strings as they are stored. A
  block of characters \<open>occurs\<close> in a string when the string is the block between a prefix
  and a suffix. With \<open>lc\<close> sending each character to its lower-case form, two strings
  are the same ignoring case when they have the same length and agree position by position
  after folding; the query is a case-insensitive substring of a field when some block that
  occurs in the field is the same as the query ignoring case.
\<close>

definition occurs :: "pystr \<Rightarrow> pystr \<Rightarrow> bool" where
  "occurs block s = (\<exists>pre suf. s = pre @ block @ suf)"

definition same_ignoring_case :: "(nat \<Rightarrow> nat) \<Rightarrow> pystr \<Rightarrow> pystr \<Rightarrow> bool" where
  "same_ignoring_case lc w q = list_all2 (\<lambda>a b. lc a = lc b) w q"

definition ci_substring :: "(nat \<Rightarrow> nat) \<Rightarrow> pystr \<Rightarrow> pystr \<Rightarrow> bool" where
  "ci_substring lc query s = (\<exists>w. occurs w s \<and> same_ignoring_case lc w query)"

text \<open>
  \<^verbatim>\<open>str.lower\<close> works on the whole string. On a given string it acts character by character
  when its result is the string of the folded characters; on ASCII text it does, with
  \<open>ascii_fold\<close>.
\<close>

definition charwise :: "(pystr \<Rightarrow> pystr) \<Rightarrow> (nat \<Rightarrow> nat) \<Rightarrow> pystr \<Rightarrow> bool" where
  "charwise lower lc s = (lower s = map lc s)"

definition ascii_fold :: "nat \<Rightarrow> nat" where
  "ascii_fold c = (if 65 \<le> c \<and> c \<le> 90 then c + 32 else c)"

text \<open>
  It does not always: what \<^verbatim>\<open>str.lower\<close> does on a word of Greek capital letters is to send
  each letter to its small letter, 32 code points higher, except that a capital sigma
  (U+03A3) which ends a word of two letters or more becomes the final small sigma
  (U+03C2). \<open>greek_lower\<close> is that function; other characters it leaves alone, as
  \<^verbatim>\<open>str.lower\<close> leaves the lower-case ASCII of the url below. The bookmark is titled with
  the capital word for "street".
\<close>

definition greek_lower :: "pystr \<Rightarrow> pystr" where
  "greek_lower s =
     map (\<lambda>(i, c). if c = 931 then (if 0 < i \<and> Suc i = length s then 962 else 963)
                    else if 913 \<le> c \<and> c \<le> 937 \<and> c \<noteq> 930 then c + 32
                    else c)
       (enumerate 0 s)"

definition greek_bookmarks :: BookmarkManager where
  "greek_bookmarks =
     fst (BookmarkManager_add (lit ''2024-05-01T10:00:00'') (lit ''https://example.com/street'')
            [927, 916, 927, 931] (lit ''default'') []
            (BookmarkManager_init (\<lambda>i. lit ''2024-05-01T09:00:00'') NoFile))"

text \<open>
  A history of 101 entries with distinct urls, as 101 calls of \<open>add\<close> leave it; only
  the last one, the oldest, has an \<^verbatim>\<open>x\<close> in its title or url.
\<close>

definition busy_history :: HistoryManager where
  "busy_history =
     \<lparr>hm_history =
        map (\<lambda>n. HistoryEntry_init (lit ''t'') (lit ''t'') (replicate (Suc n) 97)
                    (replicate (Suc n) 97) 1 None [])
          [0..<100]
        @ [HistoryEntry_init (lit ''t'') (lit ''t'') (lit ''x.org'') (lit ''X'') 1 None []],
      hm_max_entries = 10000, hm_file = None\<rparr>"


section \<open>smart/translator.py\<close>

record TranslationResult =
  r_original :: pystr
  r_translated :: pystr
  r_source_lang :: pystr
  r_target_lang :: pystr
  r_timestamp :: "pystr option"

definition TranslationResult_init :: "pystr \<Rightarrow> pystr \<Rightarrow> pystr \<Rightarrow> pystr \<Rightarrow> TranslationResult" where
  "TranslationResult_init original translated source_lang target_lang =
     \<lparr> r_original = original,
       r_translated = translated,
       r_source_lang = source_lang,
       r_target_lang = target_lang,
       r_timestamp = None \<rparr>"

text \<open>
  The document of \<^verbatim>\<open>translator.json\<close>; a result is persisted with its four fields, and
  \<^verbatim>\<open>_load\<close> rebuilds each result from them. The file is missing, holds a text that
  \<^verbatim>\<open>json.load\<close> rejects, or holds a document.
\<close>

record TranslatorDoc =
  doc_history :: "TranslationResult list"
  doc_favorites :: "TranslationResult list"

datatype TranslatorFile = Missing | Broken | Saved TranslatorDoc

record Translator =
  tr_source_lang :: pystr
  tr_target_lang :: pystr
  tr_history :: "TranslationResult list"
  tr_favorites :: "TranslationResult list"
  tr_file :: TranslatorFile

text \<open>\<^verbatim>\<open>_load\<close> swallows every exception, so a rejected text leaves the state as it is.\<close>

definition Translator_load :: "Translator \<Rightarrow> Translator" where
  "Translator_load s =
     (case tr_file s of
        Missing \<Rightarrow> s
      | Broken \<Rightarrow> s
      | Saved doc \<Rightarrow> s\<lparr>tr_history := doc_history doc, tr_favorites := doc_favorites doc\<rparr>)"

definition Translator_init :: "TranslatorFile \<Rightarrow> Translator" where
  "Translator_init content =
     Translator_load
       \<lparr> tr_source_lang = lit ''auto'',
         tr_target_lang = lit ''en'',
         tr_history = [],
         tr_favorites = [],
         tr_file = content \<rparr>"

text \<open>
  \<^verbatim>\<open>_save\<close> writes the first fifty results of the history and the favourites, each with
  its four strings. When one of them cannot be encoded, the write raises
  \<^verbatim>\<open>UnicodeEncodeError\<close> and leaves a proper prefix of the text, which \<^verbatim>\<open>json.load\<close>
  rejects.
\<close>

definition result_encodable :: "TranslationResult \<Rightarrow> bool" where
  "result_encodable r =
     (encodable (r_original r) \<and> encodable (r_translated r)
      \<and> encodable (r_source_lang r) \<and> encodable (r_target_lang r))"

definition Translator_save :: "Translator \<Rightarrow> Translator \<times> error option" where
  "Translator_save s =
     (let history = take 50 (tr_history s);
          favorites = tr_favorites s
      in if list_all result_encodable history \<and> list_all result_encodable favorites
         then (s\<lparr>tr_file := Saved \<lparr>doc_history = history, doc_favorites = favorites\<rparr>\<rparr>, None)
         else (s\<lparr>tr_file := Broken\<rparr>, Some UnicodeEncodeError))"

text \<open>
  \<^verbatim>\<open>_detect_language\<close>. The three \<^verbatim>\<open>re.findall\<close> calls collect the characters of a range of
  code points. The quotient \<^verbatim>\<open>len(cyrillic) / len(text)\<close> raises on the empty text; it is
  compared with \<^verbatim>\<open>0.3\<close> in floating point, which for texts of fewer than
  \<open>10\<^sup>1\<^sup>5\<close> characters is the comparison of the integers below. The strings tested
  for Ukrainian are given by their code points.
\<close>

definition detect_language :: "pystr \<Rightarrow> error + pystr" where
  "detect_language text =
     (let cyrillic = filter (\<lambda>c. 0x400 \<le> c \<and> c \<le> 0x4FF) text
      in if text = [] then Inl ZeroDivisionError
         else if 10 * length cyrillic > 3 * length text
         then (if str_in [0x456, 0x439] text \<or> str_in [0x454] text \<or> str_in [0x457] text
               then Inr (lit ''uk'')
               else Inr (lit ''ru''))
         else
           (let cjk = filter (\<lambda>c. (0x4e00 \<le> c \<and> c \<le> 0x9fff) \<or> (0x3040 \<le> c \<and> c \<le> 0x309f)
                                     \<or> (0x30a0 \<le> c \<and> c \<le> 0x30ff)) text
            in if cjk \<noteq> []
               then (if \<exists>c \<in> set cjk. c > 0x3000 then Inr (lit ''zh'') else Inr (lit ''ja''))
               else
                 (let korean = filter (\<lambda>c. 0xac00 \<le> c \<and> c \<le> 0xd7af) text
                  in if korean \<noteq> [] then Inr (lit ''ko'') else Inr (lit ''en''))))"

text \<open>The table \<^verbatim>\<open>lang_names\<close> of \<^verbatim>\<open>_translate_text\<close> and \<^verbatim>\<open>dict.get(key, default)\<close>.\<close>

definition lang_names :: "(pystr \<times> pystr) list" where
  "lang_names =
     [(lit ''en'', lit ''English''), (lit ''ru'', lit ''Russian''), (lit ''uk'', lit ''Ukrainian''),
      (lit ''es'', lit ''Spanish''), (lit ''fr'', lit ''French''), (lit ''de'', lit ''German''),
      (lit ''it'', lit ''Italian''), (lit ''pt'', lit ''Portuguese''), (lit ''zh'', lit ''Chinese''),
      (lit ''ja'', lit ''Japanese''), (lit ''ko'', lit ''Korean'')]"

definition dict_get :: "(pystr \<times> pystr) list \<Rightarrow> pystr \<Rightarrow> pystr \<Rightarrow> pystr" where
  "dict_get d k dflt = (case map_of d k of None \<Rightarrow> dflt | Some v \<Rightarrow> v)"

text \<open>\<^verbatim>\<open>_translate_text\<close>; the result is the f-string \<^verbatim>\<open>f"[{target_name}] {text}"\<close>.\<close>

definition translate_text :: "pystr \<Rightarrow> pystr \<Rightarrow> pystr \<Rightarrow> error + pystr" where
  "translate_text text source target =
     (case (if source = lit ''auto'' then detect_language text else Inr source) of
        Inl e \<Rightarrow> Inl e
      | Inr source \<Rightarrow>
          if source = target then Inr text
          else (let source_name = dict_get lang_names source source;
                    target_name = dict_get lang_names target target
                in Inr (lit ''['' @ target_name @ lit ''] '' @ text)))"

text \<open>
  \<^verbatim>\<open>translate\<close> returns \<^verbatim>\<open>None\<close> for the empty text; otherwise the result is put in front
  of the history, which is cut to 100 entries, and the state is saved. When \<^verbatim>\<open>_save\<close>
  raises, \<^verbatim>\<open>translate\<close> raises with the result already in the history.
\<close>

definition Translator_translate ::
  "pystr \<Rightarrow> pystr \<Rightarrow> pystr option \<Rightarrow> Translator
     \<Rightarrow> Translator \<times> (error + TranslationResult option)" where
  "Translator_translate text source target s =
     (if text = [] then (s, Inr None)
      else
        (let target = (case target of None \<Rightarrow> tr_target_lang s | Some t \<Rightarrow> t)
         in case translate_text text source target of
              Inl e \<Rightarrow> (s, Inl e)
            | Inr translated \<Rightarrow>
                (let result = TranslationResult_init text translated source target;
                     s1 = s\<lparr>tr_history := take 100 (result # tr_history s)\<rparr>
                 in returning (Translator_save s1) (Some result))))"


section \<open>privacy/tracker\_blocker.py\<close>

text \<open>
  A compiled regular expression is an object of the \<^verbatim>\<open>re\<close> library; it is modelled by what
  its methods \<^verbatim>\<open>match\<close> and \<^verbatim>\<open>search\<close> answer on a string. \<^verbatim>\<open>re.compile\<close> is a parameter
  \<open>re_compile\<close> of the functions that call it, and it may raise.
\<close>

record Pattern =
  re_match :: "pystr \<Rightarrow> bool"
  re_search :: "pystr \<Rightarrow> bool"

text \<open>
  What \<^verbatim>\<open>re.compile(p, re.IGNORECASE)\<close> is for an ASCII pattern without metacharacters;
  used where a concrete input is evaluated.
\<close>

definition compile_literal :: "pystr \<Rightarrow> Pattern" where
  "compile_literal p =
     \<lparr> re_match = (\<lambda>s. startswith (ascii_lower s) (ascii_lower p)),
       re_search = (\<lambda>s. str_in (ascii_lower p) (ascii_lower s)) \<rparr>"

text \<open>
  A raw string literal of the source, given by its pieces between the backslashes
  (code point 92), which a HOL string literal cannot hold.
\<close>

fun raw :: "string list \<Rightarrow> pystr" where
  "raw [] = []"
| "raw [s] = lit s"
| "raw (s # ss) = lit s @ 92 # raw ss"

record TrackerPattern =
  tp_pattern :: pystr
  tp_compiled :: Pattern
  tp_category :: pystr
  tp_description :: pystr

definition TrackerPattern_init ::
  "(pystr \<Rightarrow> error + Pattern) \<Rightarrow> pystr \<Rightarrow> pystr \<Rightarrow> pystr \<Rightarrow> error + TrackerPattern" where
  "TrackerPattern_init re_compile pattern category description =
     (case re_compile pattern of
        Inl e \<Rightarrow> Inl e
      | Inr compiled \<Rightarrow>
          Inr \<lparr> tp_pattern = pattern,
                tp_compiled = compiled,
                tp_category = category,
                tp_description = description \<rparr>)"

record Tracker =
  tk_domain :: pystr
  tk_category :: pystr
  tk_blocked_count :: int
  tk_first_seen :: "pystr option"
  tk_last_seen :: "pystr option"

definition Tracker_init :: "pystr \<Rightarrow> pystr \<Rightarrow> int \<Rightarrow> Tracker" where
  "Tracker_init domain category blocked_count =
     \<lparr> tk_domain = domain,
       tk_category = category,
       tk_blocked_count = blocked_count,
       tk_first_seen = None,
       tk_last_seen = None \<rparr>"

record Stats =
  total_blocked :: int
  by_category :: "pystr \<rightharpoonup> int"
  by_domain :: "pystr \<rightharpoonup> int"

record TrackerBlocker =
  tb_enabled :: bool
  tb_blocked_domains :: "pystr set"
  tb_whitelist :: "pystr set"
  tb_trackers :: "pystr \<rightharpoonup> Tracker"
  tb_stats :: Stats
  tb_filters :: "TrackerPattern list"

text \<open>
  The names bound at the top level of the module, by its imports and its class
  statements. A name that is neither among them nor a builtin raises \<^verbatim>\<open>NameError\<close> when
  it is evaluated; only the class \<^verbatim>\<open>TrackerPattern\<close> is called in the filter list.
\<close>

datatype global = TrackerPattern_class | Other_global

definition module_globals :: "(pystr \<times> global) list" where
  "module_globals =
     [(lit ''re'', Other_global), (lit ''List'', Other_global), (lit ''Dict'', Other_global),
      (lit ''Set'', Other_global), (lit ''Optional'', Other_global),
      (lit ''defaultdict'', Other_global),
      (lit ''TrackerPattern'', TrackerPattern_class), (lit ''Tracker'', Other_global),
      (lit ''TrackerBlocker'', Other_global), (lit ''CryptoMinerBlocker'', Other_global),
      (lit ''FingerprintProtector'', Other_global)]"

text \<open>
  An element of the list literal in \<^verbatim>\<open>_load_default_filters\<close>: a call of a name with a raw
  pattern, a category and a description. The elements of a list literal are evaluated
  in order and the first exception ends the evaluation.
\<close>

datatype call_expr = Call string "string list" string string

fun eval_call :: "(pystr \<Rightarrow> error + Pattern) \<Rightarrow> call_expr \<Rightarrow> error + TrackerPattern" where
  "eval_call re_compile (Call name pattern category description) =
     (case map_of module_globals (lit name) of
        None \<Rightarrow> Inl (NameError (lit name))
      | Some TrackerPattern_class \<Rightarrow>
          TrackerPattern_init re_compile (raw pattern) (lit category) (lit description)
      | Some Other_global \<Rightarrow> Inl TypeError)"

fun eval_calls :: "(pystr \<Rightarrow> error + Pattern) \<Rightarrow> call_expr list \<Rightarrow> error + TrackerPattern list" where
  "eval_calls re_compile [] = Inr []"
| "eval_calls re_compile (c # cs) =
     (case eval_call re_compile c of
        Inl e \<Rightarrow> Inl e
      | Inr f \<Rightarrow> (case eval_calls re_compile cs of
                    Inl e \<Rightarrow> Inl e
                  | Inr fs \<Rightarrow> Inr (f # fs)))"

definition default_filter_calls :: "call_expr list" where
  "default_filter_calls =
     [Call ''TrackerPattern'' [''.*'', ''.google-analytics'', ''.com''] ''analytics'' ''Google Analytics'',
      Call ''TrackerPattern'' [''.*'', ''.googletagmanager'', ''.com''] ''analytics'' ''Google Tag Manager'',
      Call ''TrackerPattern'' [''.*'', ''.facebook'', ''.net/.*signals''] ''social'' ''Facebook Pixel'',
      Call ''TrackerPattern'' [''.*'', ''.facebook'', ''.com/tr''] ''social'' ''Facebook Tracking'',
      Call ''TrackerPattern'' [''.*'', ''.hotjar'', ''.com''] ''analytics'' ''Hotjar'',
      Call ''TrackerPattern'' [''.*'', ''.mixpanel'', ''.com''] ''analytics'' ''Mixpanel'',
      Call ''TrackerPattern'' [''.*'', ''.segment'', ''.io''] ''analytics'' ''Segment'',
      Call ''TrackerPattern'' [''.*'', ''.segment.com''] ''analytics'' ''Segment'',
      Call ''TrackerPattern'' [''.*'', ''.amplitude'', ''.com''] ''analytics'' ''Amplitude'',
      Call ''TrackerPattern'' [''.*'', ''.newrelic'', ''.com''] ''analytics'' ''New Relic'',
      Call ''TrackerPattern'' [''.*'', ''.fullstory'', ''.com''] ''analytics'' ''FullStory'',
      Call ''TrackerPattern'' [''.*'', ''.mouseflow'', ''.com''] ''analytics'' ''Mouseflow'',
      Call ''TrackerPattern'' [''.*'', ''.crazyegg'', ''.com''] ''analytics'' ''Crazy Egg'',
      Call ''TrackerPattern'' [''.*'', ''.luckyorange'', ''.com''] ''analytics'' ''Lucky Orange'',
      Call ''TrackerPattern'' [''.*'', ''.quantserve'', ''.com''] ''analytics'' ''Quantcast'',
      Call ''TrackerPattern'' [''.*'', ''.scorecardresearch'', ''.com''] ''analytics'' ''Comscore'',
      Call ''TrackerPattern'' [''.*'', ''.doubleclick'', ''.net''] ''advertising'' ''DoubleClick'',
      Call ''TrackerPattern'' [''.*'', ''.googlesyndication'', ''.com''] ''advertising'' ''Google Ads'',
      Call ''TrackerPattern'' [''.*'', ''.adnxs'', ''.com''] ''advertising'' ''AppNexus'',
      Call ''TrackerPattern'' [''.*'', ''.adsrvr'', ''.org''] ''advertising'' ''The Trade Desk'',
      Call ''TrackerPattern'' [''.*'', ''.advertising'', ''.com''] ''advertising'' ''Advertising.com'',
      Call ''TrackerPattern'' [''.*'', ''.criteo'', ''.com''] ''advertising'' ''Criteo'',
      Call ''TrackerPattern'' [''.*'', ''.taboola'', ''.com''] ''advertising'' ''Taboola'',
      Call ''TrackerPattern'' [''.*'', ''.outbrain'', ''.com''] ''advertising'' ''Outbrain'',
      Call ''TrackerPattern'' [''.*'', ''.amazon-adsystem'', ''.com''] ''advertising'' ''Amazon Ads'',
      Call ''TrackerPattern'' [''.*'', ''.bing'', ''.com/bat'', ''.js''] ''advertizing'' ''Bing Ads'',
      Call ''TrackerPattern'' [''.*'', ''.twitter'', ''.com/.*collect''] ''social'' ''Twitter Analytics'',
      Call ''TrackerPattern'' [''.*'', ''.linkedin'', ''.com/px''] ''social'' ''LinkedIn Pixel'',
      Call ''TrackerPattern'' [''.*'', ''.tiktok'', ''.com/.*event''] ''social'' ''TikTok Pixel'',
      Call ''TrackerPattern'' [''.*coinhive'', ''..*''] ''cryptomining'' ''CoinHive'',
      Call ''TrackerPattern'' [''.*coin-hive'', ''..*''] ''cryptomining'' ''CoinHive'',
      Call ''TrackerPattern'' [''.*cryptoloot'', ''..*''] ''cryptomining'' ''CryptoLoot'',
      Call ''TrackerPattern'' [''.*minero'', ''.cc''] ''cryptomining'' ''Minero'',
      Call ''TrackerPattern'' [''.*webminer'', ''..*''] ''cryptomining'' ''Web Miner'',
      Call ''TrackerPattern'' [''.*jsecoin'', ''..*''] ''cryptomining'' ''JSEcoin'',
      Call ''TrackerPattern'' [''.*'', ''.branch'', ''.io''] ''fingerprinting'' ''Branch'',
      Call ''TrackerPattern'' [''.*'', ''.fingerprintjs'', ''.com''] ''fingerprinting'' ''FingerprintJS'',
      Call ''TrackerPattern'' [''.*'', ''.iovation'', ''.com''] ''fingerprinting'' ''IOvation'',
      Call ''TrackerPattern'' [''.*'', ''.maxmind'', ''.com''] ''fingerprinting'' ''MaxMind'',
      Call ''TrackerPattern'' [''.*'', ''.optimizely'', ''.com''] ''ab_testing'' ''Optimizely'',
      Call ''TrackerPattern'' [''.*'', ''.vwo'', ''.com''] ''ab_testing'' ''VWO'',
      Call ''TrackerPattern'' [''.*'', ''.omniture'', ''.com''] ''analytics'' ''Adobe Analytics'',
      Call ''TrackerPattern'' [''.*'', ''.omtrdc'', ''.net''] ''analytics'' ''Adobe Analytics'',
      Call ''TrackerPattern'' [''.*'', ''.mookie1'', ''.com''] ''advertising'' ''Mookie1'',
      Call ''TrackerPattern'' [''.*'', ''.2mdn'', ''.net''] ''advertising'' ''DoubleClick Manager'',
      Call ''TrackerPattern'' [''.*'', ''.adform'', ''.net''] ''advertising'' ''Adform'',
      Call ''TrackerPattern'' [''.*'', ''.smartadserver'', ''.com''] ''advertising'' ''Smart AdServer'',
      Call ''TrackerPattern'' [''.*'', ''.rubiconproject'', ''.com''] ''advertising'' ''Rubicon'',
      Call ''TrackerPattern'' [''.*'', ''.pubmatic'', ''.com''] ''advertising'' ''PubMatic'',
      Call ''TrackerPattern'' [''.*'', ''.openx'', ''.net''] ''advertising'' ''OpenX'',
      Call ''TrackerTrackerPattern'' [''.*'', ''.bidswitch'', ''.net''] ''advertising'' ''BidSwitch'',
      Call ''TrackerPattern'' [''.*'', ''.casalemedia'', ''.com''] ''advertising'' ''Casale Media'',
      Call ''TrackerPattern'' [''.*'', ''.indexexchange'', ''.com''] ''advertising'' ''Index Exchange'',
      Call ''TrackerPattern'' [''.*'', ''.sharethrough'', ''.com''] ''advertising'' ''ShareThrough'',
      Call ''TrackerPattern'' [''.*'', ''.spotxchange'', ''.com''] ''advertising'' ''SpotXchange'',
      Call ''TrackerPattern'' [''.*'', ''.yieldmo'', ''.com''] ''advertising'' ''YieldMo'',
      Call ''TrackerPattern'' [''.*'', ''.contextweb'', ''.com''] ''advertising'' ''ContextWeb'',
      Call ''TrackerPattern'' [''.*'', ''.media'', ''.net''] ''advertising'' ''Media.net'']"

definition common_trackers :: "pystr list" where
  "common_trackers =
     [lit ''google-analytics.com'', lit ''googletagmanager.com'', lit ''facebook.net'',
      lit ''hotjar.com'', lit ''mixpanel.com'', lit ''segment.io'', lit ''amplitude.com'',
      lit ''doubleclick.net'', lit ''googlesyndication.com'', lit ''adnxs.com'',
      lit ''criteo.com'', lit ''taboola.com'', lit ''outbrain.com'', lit ''amazon-adsystem.com'']"

text \<open>\<^verbatim>\<open>_load_default_filters\<close> and \<^verbatim>\<open>TrackerBlocker.__init__\<close>.\<close>

definition load_default_filters ::
  "(pystr \<Rightarrow> error + Pattern) \<Rightarrow> TrackerBlocker \<Rightarrow> error + TrackerBlocker" where
  "load_default_filters re_compile s =
     (case eval_calls re_compile default_filter_calls of
        Inl e \<Rightarrow> Inl e
      | Inr filters \<Rightarrow>
          Inr (s\<lparr>tb_filters := filters,
                 tb_blocked_domains := tb_blocked_domains s \<union> set common_trackers\<rparr>))"

definition TrackerBlocker_init :: "(pystr \<Rightarrow> error + Pattern) \<Rightarrow> error + TrackerBlocker" where
  "TrackerBlocker_init re_compile =
     load_default_filters re_compile
       \<lparr> tb_enabled = True,
         tb_blocked_domains = {},
         tb_whitelist = {},
         tb_trackers = Map.empty,
         tb_stats = \<lparr>total_blocked = 0, by_category = Map.empty, by_domain = Map.empty\<rparr>,
         tb_filters = [] \<rparr>"

text \<open>Indexing with a literal index, \<^verbatim>\<open>str.split\<close> on a one-character separator.\<close>

definition getitem :: "'a list \<Rightarrow> nat \<Rightarrow> error + 'a" where
  "getitem xs i = (if i < length xs then Inr (xs ! i) else Inl IndexError)"

fun split :: "pystr \<Rightarrow> nat \<Rightarrow> pystr list" where
  "split [] sep = [[]]"
| "split (c # cs) sep =
     (if c = sep then [] # split cs sep
      else (case split cs sep of
              [] \<Rightarrow> [[c]]
            | p # ps \<Rightarrow> (c # p) # ps))"

definition extract_domain :: "pystr \<Rightarrow> error + pystr" where
  "extract_domain url =
     (case (if str_in (lit ''://'') url then getitem (split url 47) 2
            else getitem (split url 47) 0) of
        Inl e \<Rightarrow> Inl e
      | Inr domain \<Rightarrow> getitem (split domain 58) 0)"

text \<open>\<^verbatim>\<open>d[k] += 1\<close> on a \<^verbatim>\<open>defaultdict(int)\<close>.\<close>

definition bump :: "(pystr \<rightharpoonup> int) \<Rightarrow> pystr \<Rightarrow> (pystr \<rightharpoonup> int)" where
  "bump d k = d(k \<mapsto> (case d k of None \<Rightarrow> 0 | Some n \<Rightarrow> n) + 1)"

text \<open>
  \<^verbatim>\<open>_record_block\<close>: the three counters, then the tracker of the domain, created with a
  count of zero when the domain is new, and its count raised.
\<close>

definition record_block :: "pystr \<Rightarrow> pystr \<Rightarrow> TrackerBlocker \<Rightarrow> TrackerBlocker" where
  "record_block domain category s =
     (let stats = tb_stats s;
          stats = stats\<lparr>total_blocked := total_blocked stats + 1\<rparr>;
          stats = stats\<lparr>by_category := bump (by_category stats) category\<rparr>;
          stats = stats\<lparr>by_domain := bump (by_domain stats) domain\<rparr>;
          trackers = (case tb_trackers s domain of
                        None \<Rightarrow> (tb_trackers s)(domain \<mapsto> Tracker_init domain category 0)
                      | Some t \<Rightarrow> tb_trackers s);
          trackers = (case trackers domain of
                        None \<Rightarrow> trackers
                      | Some t \<Rightarrow> trackers(domain \<mapsto> t\<lparr>tk_blocked_count := tk_blocked_count t + 1\<rparr>))
      in s\<lparr>tb_stats := stats, tb_trackers := trackers\<rparr>)"

text \<open>The loop over \<^verbatim>\<open>self.filters\<close> returns the first filter whose pattern matches.\<close>

fun filters_loop :: "pystr \<Rightarrow> TrackerPattern list \<Rightarrow> TrackerPattern option" where
  "filters_loop url [] = None"
| "filters_loop url (tracker_filter # rest) =
     (if re_match (tp_compiled tracker_filter) url then Some tracker_filter
      else filters_loop url rest)"

definition should_block ::
  "pystr \<Rightarrow> pystr \<Rightarrow> TrackerBlocker \<Rightarrow> error + (TrackerBlocker \<times> bool \<times> TrackerPattern option)" where
  "should_block url page_domain s =
     (if \<not> tb_enabled s then Inr (s, False, None)
      else
        (case extract_domain url of
           Inl e \<Rightarrow> Inl e
         | Inr domain \<Rightarrow>
             if domain \<in> tb_whitelist s then Inr (s, False, None)
             else if domain \<in> tb_blocked_domains s
             then Inr (record_block domain (lit ''manual'') s, True, None)
             else
               (case filters_loop url (tb_filters s) of
                  Some tracker_filter \<Rightarrow>
                    Inr (record_block domain (tp_category tracker_filter) s, True, Some tracker_filter)
                | None \<Rightarrow> Inr (s, False, None))))"

text \<open>The name that an element of the list calls, and the pattern it passes.\<close>

fun call_name :: "call_expr \<Rightarrow> string" where
  "call_name (Call name pattern category description) = name"

fun call_pattern :: "call_expr \<Rightarrow> pystr" where
  "call_pattern (Call name pattern category description) = raw pattern"

text \<open>A blocker with two literal filters, used to evaluate \<open>should_block\<close>.\<close>

definition example_blocker :: TrackerBlocker where
  "example_blocker =
     \<lparr> tb_enabled = True,
       tb_blocked_domains = {lit ''ads.example''},
       tb_whitelist = {lit ''good.example''},
       tb_trackers = Map.empty,
       tb_stats = \<lparr>total_blocked = 0, by_category = Map.empty, by_domain = Map.empty\<rparr>,
       tb_filters =
         [\<lparr>tp_pattern = lit ''http://track'', tp_compiled = compile_literal (lit ''http://track''),
            tp_category = lit ''analytics'', tp_description = []\<rparr>,
          \<lparr>tp_pattern = lit ''http://'', tp_compiled = compile_literal (lit ''http://''),
            tp_category = lit ''advertising'', tp_description = []\<rparr>] \<rparr>"


section \<open>productivity/site\_blocker.py\<close>

record BlockRule =
  br_pattern :: pystr
  br_rule_type :: pystr
  br_reason :: pystr
  br_enabled :: bool
  br_created_at :: pystr
  br_hit_count :: int
  br_last_hit :: "pystr option"
  br_compiled :: "Pattern option"

text \<open>
  \<^verbatim>\<open>BlockRule.__init__\<close>; \<open>now\<close> is the reading of the clock. A pattern of a regex rule that
  does not compile leaves \<^verbatim>\<open>compiled\<close> at \<^verbatim>\<open>None\<close>.
\<close>

definition BlockRule_init ::
  "(pystr \<Rightarrow> error + Pattern) \<Rightarrow> pystr \<Rightarrow> pystr \<Rightarrow> pystr \<Rightarrow> pystr \<Rightarrow> bool \<Rightarrow> BlockRule" where
  "BlockRule_init re_compile now pattern rule_type reason enabled =
     \<lparr> br_pattern = pattern,
       br_rule_type = rule_type,
       br_reason = reason,
       br_enabled = enabled,
       br_created_at = now,
       br_hit_count = 0,
       br_last_hit = None,
       br_compiled =
         (if rule_type = lit ''regex''
          then (case re_compile pattern of Inl e \<Rightarrow> None | Inr compiled \<Rightarrow> Some compiled)
          else None) \<rparr>"

definition matches :: "(pystr \<Rightarrow> pystr) \<Rightarrow> BlockRule \<Rightarrow> pystr \<Rightarrow> bool" where
  "matches lower rule url =
     (if \<not> br_enabled rule then False
      else
        (let url_lower = lower url
         in if br_rule_type rule = lit ''domain'' then str_in (lower (br_pattern rule)) url_lower
            else if br_rule_type rule = lit ''exact'' then url_lower = lower (br_pattern rule)
            else if br_rule_type rule = lit ''prefix''
            then startswith url_lower (lower (br_pattern rule))
            else if br_rule_type rule = lit ''regex''
            then (case br_compiled rule of
                    Some compiled \<Rightarrow> re_search compiled url
                  | None \<Rightarrow> False)
            else False))"

definition record_hit :: "pystr \<Rightarrow> BlockRule \<Rightarrow> BlockRule" where
  "record_hit now rule = rule\<lparr>br_hit_count := br_hit_count rule + 1, br_last_hit := Some now\<rparr>"

record BlockedPage =
  bp_url :: pystr
  bp_rule :: pystr
  bp_timestamp :: pystr

text \<open>
  The document of \<^verbatim>\<open>site_blocker.json\<close> and the blocker. The block categories feed the
  statistics only and the callbacks are code of the caller, run with every exception
  swallowed; neither is modelled. The write is modelled for documents that can be
  encoded.
\<close>

record SiteBlockerDoc =
  doc_enabled :: bool
  doc_rules :: "BlockRule list"
  doc_whitelist :: "pystr list"
  doc_blocked_count :: int
  doc_schedule_enabled :: bool
  doc_schedule_start :: pystr
  doc_schedule_end :: pystr
  doc_schedule_days :: "int list"

record SiteBlocker =
  sb_enabled :: bool
  sb_rules :: "BlockRule list"
  sb_whitelist :: "pystr list"
  sb_blocked_count :: int
  sb_schedule_enabled :: bool
  sb_schedule_start :: pystr
  sb_schedule_end :: pystr
  sb_schedule_days :: "int list"
  sb_blocked_pages :: "BlockedPage list"
  sb_file :: "SiteBlockerDoc option"

definition SiteBlocker_save :: "SiteBlocker \<Rightarrow> SiteBlocker" where
  "SiteBlocker_save s =
     s\<lparr>sb_file := Some
          \<lparr> doc_enabled = sb_enabled s,
            doc_rules = sb_rules s,
            doc_whitelist = sb_whitelist s,
            doc_blocked_count = sb_blocked_count s,
            doc_schedule_enabled = sb_schedule_enabled s,
            doc_schedule_start = sb_schedule_start s,
            doc_schedule_end = sb_schedule_end s,
            doc_schedule_days = sb_schedule_days s \<rparr>\<rparr>"

text \<open>
  A \<^verbatim>\<open>datetime.time\<close>, ordered as the tuple of its four fields, and the reading of the
  clock in \<^verbatim>\<open>is_schedule_active\<close>: the day of the week and the time of day.
\<close>

record TimeOfDay =
  td_hour :: nat
  td_minute :: nat
  td_second :: nat
  td_microsecond :: nat

definition time_le :: "TimeOfDay \<Rightarrow> TimeOfDay \<Rightarrow> bool" where
  "time_le a b =
     (td_hour a < td_hour b \<or> td_hour a = td_hour b \<and>
       (td_minute a < td_minute b \<or> td_minute a = td_minute b \<and>
         (td_second a < td_second b \<or> td_second a = td_second b \<and>
           td_microsecond a \<le> td_microsecond b)))"

record Clock =
  c_weekday :: int
  c_time :: TimeOfDay

text \<open>
  \<^verbatim>\<open>datetime.strptime(s, '%H:%M')\<close> is a parameter \<open>strptime\<close> of the functions that call it;
  \<open>None\<close> stands for its \<^verbatim>\<open>ValueError\<close>. \<open>parse_HM\<close> is what it does on ASCII text: one or
  two digits below 24, a colon, one or two digits below 60. It is used where a concrete
  input is evaluated.
\<close>

definition digit :: "nat \<Rightarrow> nat option" where
  "digit c = (if 48 \<le> c \<and> c \<le> 57 then Some (c - 48) else None)"

fun number :: "pystr \<Rightarrow> nat option" where
  "number [a] = digit a"
| "number [a, b] =
     (case digit a of
        None \<Rightarrow> None
      | Some x \<Rightarrow> (case digit b of None \<Rightarrow> None | Some y \<Rightarrow> Some (10 * x + y)))"
| "number s = None"

definition parse_HM :: "pystr \<Rightarrow> (nat \<times> nat) option" where
  "parse_HM s =
     (case split s 58 of
        [h, m] \<Rightarrow>
          (case number h of
             None \<Rightarrow> None
           | Some H \<Rightarrow>
               (case number m of
                  None \<Rightarrow> None
                | Some M \<Rightarrow> if H < 24 \<and> M < 60 then Some (H, M) else None))
      | _ \<Rightarrow> None)"

text \<open>The \<^verbatim>\<open>.time()\<close> of a parsed \<^verbatim>\<open>%H:%M\<close> string.\<close>

definition time_of :: "nat \<times> nat \<Rightarrow> TimeOfDay" where
  "time_of hm = \<lparr>td_hour = fst hm, td_minute = snd hm, td_second = 0, td_microsecond = 0\<rparr>"

definition is_schedule_active ::
  "(pystr \<Rightarrow> (nat \<times> nat) option) \<Rightarrow> Clock \<Rightarrow> SiteBlocker \<Rightarrow> error + bool" where
  "is_schedule_active strptime now s =
     (let current_day = c_weekday now
      in if current_day \<notin> set (sb_schedule_days s) then Inr False
         else
           (let current_time = c_time now
            in case strptime (sb_schedule_start s) of
                 None \<Rightarrow> Inl ValueError
               | Some start \<Rightarrow>
                   (case strptime (sb_schedule_end s) of
                      None \<Rightarrow> Inl ValueError
                    | Some end_hm \<Rightarrow>
                        Inr (time_le (time_of start) current_time
                             \<and> time_le current_time (time_of end_hm)))))"

fun is_whitelisted_loop :: "(pystr \<Rightarrow> pystr) \<Rightarrow> pystr \<Rightarrow> pystr list \<Rightarrow> bool" where
  "is_whitelisted_loop lower url_lower [] = False"
| "is_whitelisted_loop lower url_lower (item # rest) =
     (if str_in (lower item) url_lower then True else is_whitelisted_loop lower url_lower rest)"

definition is_whitelisted :: "(pystr \<Rightarrow> pystr) \<Rightarrow> pystr \<Rightarrow> SiteBlocker \<Rightarrow> bool" where
  "is_whitelisted lower url s = is_whitelisted_loop lower (lower url) (sb_whitelist s)"

text \<open>
  The loop over the rules: the first rule that matches records the hit and is returned
  with the updated list; \<open>seen\<close> holds the rules already passed.
\<close>

fun rules_loop ::
  "(pystr \<Rightarrow> pystr) \<Rightarrow> pystr \<Rightarrow> pystr \<Rightarrow> BlockRule list \<Rightarrow> BlockRule list
     \<Rightarrow> (BlockRule list \<times> BlockRule) option" where
  "rules_loop lower url now seen [] = None"
| "rules_loop lower url now seen (rule # rest) =
     (if matches lower rule url
      then (let rule = record_hit now rule in Some (seen @ rule # rest, rule))
      else rules_loop lower url now (seen @ [rule]) rest)"

text \<open>The loop of \<^verbatim>\<open>should_block\<close> and what follows a match; then \<^verbatim>\<open>should_block\<close> itself.\<close>

definition check_rules ::
  "(pystr \<Rightarrow> pystr) \<Rightarrow> pystr \<Rightarrow> pystr \<Rightarrow> pystr \<Rightarrow> SiteBlocker
     \<Rightarrow> SiteBlocker \<times> bool \<times> BlockRule option" where
  "check_rules lower now1 now2 url s =
     (case rules_loop lower url now1 [] (sb_rules s) of
        None \<Rightarrow> (s, False, None)
      | Some (rules, rule) \<Rightarrow>
          (let s1 = s\<lparr>sb_rules := rules,
                       sb_blocked_count := sb_blocked_count s + 1,
                       sb_blocked_pages := sb_blocked_pages s
                         @ [\<lparr>bp_url = url, bp_rule = br_pattern rule, bp_timestamp = now2\<rparr>]\<rparr>
           in (SiteBlocker_save s1, True, Some rule)))"

definition SiteBlocker_should_block ::
  "(pystr \<Rightarrow> pystr) \<Rightarrow> (pystr \<Rightarrow> (nat \<times> nat) option) \<Rightarrow> Clock \<Rightarrow> pystr \<Rightarrow> pystr \<Rightarrow> pystr
     \<Rightarrow> SiteBlocker \<Rightarrow> error + (SiteBlocker \<times> bool \<times> BlockRule option)" where
  "SiteBlocker_should_block lower strptime now now1 now2 url s =
     (if \<not> sb_enabled s then Inr (s, False, None)
      else if is_whitelisted lower url s then Inr (s, False, None)
      else if sb_schedule_enabled s
      then (case is_schedule_active strptime now s of
              Inl e \<Rightarrow> Inl e
            | Inr active \<Rightarrow>
                if \<not> active then Inr (s, False, None)
                else Inr (check_rules lower now1 now2 url s))
      else Inr (check_rules lower now1 now2 url s))"

text \<open>An enabled blocker with one rule and the default schedule, switched on.\<close>

definition example_site_blocker :: SiteBlocker where
  "example_site_blocker =
     \<lparr> sb_enabled = True,
       sb_rules = [BlockRule_init (\<lambda>p. Inr (compile_literal p)) (lit ''2024-05-01T08:00:00'')
                     (lit ''facebook.com'') (lit ''domain'') (lit ''Social media'') True],
       sb_whitelist = [],
       sb_blocked_count = 0,
       sb_schedule_enabled = True,
       sb_schedule_start = lit ''09:00'',
       sb_schedule_end = lit ''17:00'',
       sb_schedule_days = [0, 1, 2, 3, 4],
       sb_blocked_pages = [],
       sb_file = None \<rparr>"


section \<open>Strings\<close>

lemma lit_eq_iff [simp]: "lit a = lit b \<longleftrightarrow> a = b"
proof -
  have "inj (of_char :: char \<Rightarrow> nat)" by (rule injI) simp
  then show ?thesis by (simp add: lit_def inj_map_eq_map)
qed

lemma lit_Nil_iff [simp]: "lit a = [] \<longleftrightarrow> a = []" "[] = lit a \<longleftrightarrow> a = []"
  by (auto simp: lit_def)

lemma encodable_lit [simp]: "encodable (lit s)"
proof -
  have "of_char c < (0xD800::nat)" for c :: char
    using nat_of_char_less_256 [of c] by linarith
  then show ?thesis by (simp add: encodable_def lit_def list_all_iff)
qed

lemma encodable_Nil [simp]: "encodable []"
  by (simp add: encodable_def)

lemma encodable_append [simp]: "encodable (a @ b) \<longleftrightarrow> encodable a \<and> encodable b"
  by (simp add: encodable_def)

lemma fst_returning [simp]: "fst (returning r v) = fst r"
  by (simp add: returning_def)

lemma snd_returning:
  "snd (returning r v) = (case snd r of None \<Rightarrow> Inr v | Some e \<Rightarrow> Inl e)"
  by (simp add: returning_def)


section \<open>Saving and loading bookmarks\<close>

lemma lit_keys_distinct:
  "lit ''url'' \<noteq> lit ''title''" "lit ''url'' \<noteq> lit ''folder''" "lit ''url'' \<noteq> lit ''favicon''"
  "lit ''url'' \<noteq> lit ''created_at''" "lit ''title'' \<noteq> lit ''folder''"
  "lit ''title'' \<noteq> lit ''favicon''" "lit ''title'' \<noteq> lit ''created_at''"
  "lit ''folder'' \<noteq> lit ''favicon''" "lit ''folder'' \<noteq> lit ''created_at''"
  "lit ''favicon'' \<noteq> lit ''created_at''"
  by (simp_all add: lit_def)

lemma from_dict_to_dict:
  assumes "b_created_at b \<noteq> []"
  shows "from_dict now (to_dict b) = Inr b"
  using assms lit_keys_distinct lit_keys_distinct [symmetric]
  by (simp add: from_dict_def to_dict_def Bookmark_init_def py_or_def)

lemma Bookmark_init_created: "now \<noteq> [] \<Longrightarrow> b_created_at (Bookmark_init now u t f fav c) \<noteq> []"
  by (simp add: Bookmark_init_def py_or_def split: option.splits)

lemma from_dict_created: "now \<noteq> [] \<Longrightarrow> from_dict now d = Inr b \<Longrightarrow> b_created_at b \<noteq> []"
  by (auto simp: from_dict_def Bookmark_init_created split: if_splits option.splits)

lemma load_bookmarks_created:
  "\<forall>i. clock i \<noteq> [] \<Longrightarrow> load_bookmarks clock i ds = Inr bs \<Longrightarrow> \<forall>b \<in> set bs. b_created_at b \<noteq> []"
proof (induction ds arbitrary: i bs)
  case Nil
  then show ?case by simp
next
  case (Cons d ds)
  from Cons.prems obtain b bs' where b: "from_dict (clock i) d = Inr b"
    and bs': "load_bookmarks clock (Suc i) ds = Inr bs'" and bs: "bs = b # bs'"
    by (auto split: sum.splits)
  from Cons.prems(1) have "clock i \<noteq> []" by simp
  then have "b_created_at b \<noteq> []" using b by (rule from_dict_created)
  moreover from Cons.IH [OF Cons.prems(1) bs'] have "\<forall>x \<in> set bs'. b_created_at x \<noteq> []" .
  ultimately show ?case using bs by simp
qed

lemma load_to_dicts:
  "\<forall>b \<in> set bs. b_created_at b \<noteq> [] \<Longrightarrow> load_bookmarks clock i (map to_dict bs) = Inr bs"
  by (induction bs arbitrary: i) (simp_all add: from_dict_to_dict)

lemma save_keeps [simp]:
  "bm_bookmarks (fst (BookmarkManager_save s)) = bm_bookmarks s"
  "bm_folders (fst (BookmarkManager_save s)) = bm_folders s"
  by (simp_all add: BookmarkManager_save_def Let_def)

lemma save_written:
  assumes "state_encodable s"
  shows "BookmarkManager_save s
         = (s\<lparr>bm_file := Doc (Some (map to_dict (bm_bookmarks s))) (Some (bm_folders s))\<rparr>, None)"
  using assms by (simp add: BookmarkManager_save_def state_encodable_def Let_def)

lemma save_raised:
  assumes "\<not> state_encodable s"
  shows "BookmarkManager_save s = (s\<lparr>bm_file := Unreadable\<rparr>, Some UnicodeEncodeError)"
  using assms by (auto simp: BookmarkManager_save_def state_encodable_def Let_def)

lemma reachable_created: "reachable s \<Longrightarrow> \<forall>b \<in> set (bm_bookmarks s). b_created_at b \<noteq> []"
proof (induction rule: reachable.induct)
  case (r_init clock content)
  then show ?case
    by (auto simp: BookmarkManager_init_def BookmarkManager_load_def
        split: BookmarksFile.splits sum.splits dest: load_bookmarks_created)
next
  case (r_add s now url title folder favicon)
  then show ?case
    by (simp add: BookmarkManager_add_def Let_def Bookmark_init_created)
next
  case (r_remove s url)
  then show ?case
    by (simp add: BookmarkManager_remove_def Let_def)
next
  case (r_add_folder s name display_name)
  then show ?case by (simp add: add_folder_def)
next
  case (r_remove_folder s name)
  then show ?case by (auto simp: remove_folder_def)
qed

text \<open>
  C3 as stated fails: a url may hold a lone surrogate, which the UTF-8 file cannot take.
  After \<open>add\<close> with such a url on a manager started without a file, the list in memory
  holds the bookmark, \<open>_save\<close> raises and leaves an unreadable file, and \<open>_load\<close> of that
  file gives the empty list.
\<close>

theorem save_load_surrogate_counterexample:
  "reachable surrogate_bookmarks
   \<and> bm_bookmarks surrogate_bookmarks
     = [\<lparr>b_url = lit ''https://example.com/'' @ [0xD800], b_title = lit ''Example'',
         b_folder = lit ''default'', b_favicon = [], b_created_at = lit ''2024-05-01T10:00:00''\<rparr>]
   \<and> snd (BookmarkManager_save surrogate_bookmarks) = Some UnicodeEncodeError
   \<and> bm_bookmarks (BookmarkManager_load (\<lambda>i. lit ''2024-05-01T11:00:00'')
        (fst (BookmarkManager_save surrogate_bookmarks))) = []"
proof -
  have r: "reachable surrogate_bookmarks"
    unfolding surrogate_bookmarks_def
    by (rule r_add, rule r_init) simp_all
  have b: "bm_bookmarks surrogate_bookmarks
     = [\<lparr>b_url = lit ''https://example.com/'' @ [0xD800], b_title = lit ''Example'',
         b_folder = lit ''default'', b_favicon = [], b_created_at = lit ''2024-05-01T10:00:00''\<rparr>]"
    by (simp add: surrogate_bookmarks_def BookmarkManager_add_def BookmarkManager_init_def
        BookmarkManager_load_def Bookmark_init_def py_or_def Let_def)
  have "\<not> encodable [0xD800]" by (simp add: encodable_def)
  then have n: "\<not> state_encodable surrogate_bookmarks"
    by (simp add: state_encodable_def b to_dict_def dict_encodable_def)
  from save_raised [OF n] b r show ?thesis
    by (simp add: BookmarkManager_load_def)
qed

text \<open>
  C3, amended. Every bookmark that the constructor builds is restored by \<open>from_dict\<close> from
  its \<open>to_dict\<close> image, field for field; so is every bookmark of a manager. For every
  state of a manager whose bookmark fields, folder keys and folder names can all be encoded
  in UTF-8 (hold no lone surrogate), \<open>_save\<close> writes the document and loading it gives the
  bookmark list and the folders that were saved, both in the manager itself and in a
  manager newly built from the file. When some string cannot be encoded, \<open>_save\<close> raises
  \<^verbatim>\<open>UnicodeEncodeError\<close> and leaves a file from which \<open>_load\<close> reads the empty list, keeping
  the folders it had.
\<close>

theorem save_load_round_trip:
  assumes "reachable s"
  shows "(\<forall>b \<in> set (bm_bookmarks s). from_dict now (to_dict b) = Inr b)
       \<and> (now0 \<noteq> [] \<longrightarrow>
            from_dict now (to_dict (Bookmark_init now0 url title folder favicon created_at))
              = Inr (Bookmark_init now0 url title folder favicon created_at))
       \<and> (state_encodable s \<longrightarrow>
            snd (BookmarkManager_save s) = None
            \<and> BookmarkManager_load clock (fst (BookmarkManager_save s)) = fst (BookmarkManager_save s)
            \<and> bm_bookmarks (BookmarkManager_init clock (bm_file (fst (BookmarkManager_save s))))
              = bm_bookmarks s
            \<and> bm_folders (BookmarkManager_init clock (bm_file (fst (BookmarkManager_save s))))
              = bm_folders s)
       \<and> (\<not> state_encodable s \<longrightarrow>
            snd (BookmarkManager_save s) = Some UnicodeEncodeError
            \<and> bm_file (fst (BookmarkManager_save s)) = Unreadable
            \<and> bm_bookmarks (BookmarkManager_load clock (fst (BookmarkManager_save s))) = []
            \<and> bm_folders (BookmarkManager_load clock (fst (BookmarkManager_save s))) = bm_folders s)"
proof -
  from assms have created: "\<forall>b \<in> set (bm_bookmarks s). b_created_at b \<noteq> []"
    by (rule reachable_created)
  then have one: "\<forall>b \<in> set (bm_bookmarks s). from_dict now (to_dict b) = Inr b"
    by (simp add: from_dict_to_dict)
  have ctor: "now0 \<noteq> [] \<longrightarrow>
            from_dict now (to_dict (Bookmark_init now0 url title folder favicon created_at))
              = Inr (Bookmark_init now0 url title folder favicon created_at)"
    by (simp add: from_dict_to_dict Bookmark_init_created)
  have list: "load_bookmarks clock 0 (map to_dict (bm_bookmarks s)) = Inr (bm_bookmarks s)"
    using created by (rule load_to_dicts)
  have good: "state_encodable s \<longrightarrow>
            snd (BookmarkManager_save s) = None
            \<and> BookmarkManager_load clock (fst (BookmarkManager_save s)) = fst (BookmarkManager_save s)
            \<and> bm_bookmarks (BookmarkManager_init clock (bm_file (fst (BookmarkManager_save s))))
              = bm_bookmarks s
            \<and> bm_folders (BookmarkManager_init clock (bm_file (fst (BookmarkManager_save s))))
              = bm_folders s"
  proof
    assume "state_encodable s"
    then have w: "BookmarkManager_save s
         = (s\<lparr>bm_file := Doc (Some (map to_dict (bm_bookmarks s))) (Some (bm_folders s))\<rparr>, None)"
      by (rule save_written)
    show "snd (BookmarkManager_save s) = None
            \<and> BookmarkManager_load clock (fst (BookmarkManager_save s)) = fst (BookmarkManager_save s)
            \<and> bm_bookmarks (BookmarkManager_init clock (bm_file (fst (BookmarkManager_save s))))
              = bm_bookmarks s
            \<and> bm_folders (BookmarkManager_init clock (bm_file (fst (BookmarkManager_save s))))
              = bm_folders s"
      unfolding w by (simp add: BookmarkManager_load_def BookmarkManager_init_def list)
  qed
  have bad: "\<not> state_encodable s \<longrightarrow>
            snd (BookmarkManager_save s) = Some UnicodeEncodeError
            \<and> bm_file (fst (BookmarkManager_save s)) = Unreadable
            \<and> bm_bookmarks (BookmarkManager_load clock (fst (BookmarkManager_save s))) = []
            \<and> bm_folders (BookmarkManager_load clock (fst (BookmarkManager_save s))) = bm_folders s"
  proof
    assume "\<not> state_encodable s"
    then have w: "BookmarkManager_save s = (s\<lparr>bm_file := Unreadable\<rparr>, Some UnicodeEncodeError)"
      by (rule save_raised)
    show "snd (BookmarkManager_save s) = Some UnicodeEncodeError
            \<and> bm_file (fst (BookmarkManager_save s)) = Unreadable
            \<and> bm_bookmarks (BookmarkManager_load clock (fst (BookmarkManager_save s))) = []
            \<and> bm_folders (BookmarkManager_load clock (fst (BookmarkManager_save s))) = bm_folders s"
      unfolding w by (simp add: BookmarkManager_load_def)
  qed
  from one ctor good bad show ?thesis by blast
qed

theorem save_load_round_trip_witness:
  "state_encodable example_bookmarks
   \<and> bm_bookmarks example_bookmarks
     = [\<lparr>b_url = lit ''https://example.com'', b_title = lit ''Example'', b_folder = lit ''default'',
         b_favicon = [], b_created_at = lit ''2024-05-01T10:00:00''\<rparr>]
   \<and> snd (BookmarkManager_save example_bookmarks) = None
   \<and> bm_bookmarks (BookmarkManager_init (\<lambda>i. []) (bm_file (fst (BookmarkManager_save example_bookmarks))))
     = [\<lparr>b_url = lit ''https://example.com'', b_title = lit ''Example'', b_folder = lit ''default'',
         b_favicon = [], b_created_at = lit ''2024-05-01T10:00:00''\<rparr>]
   \<and> bm_folders (BookmarkManager_init (\<lambda>i. []) (bm_file (fst (BookmarkManager_save example_bookmarks))))
     = [(lit ''default'', lit ''Default''), (lit ''work'', lit ''Work''),
        (lit ''personal'', lit ''Personal'')]"
proof -
  have r: "reachable example_bookmarks"
    unfolding example_bookmarks_def
    by (rule r_add, rule r_init) simp_all
  have b: "bm_bookmarks example_bookmarks
     = [\<lparr>b_url = lit ''https://example.com'', b_title = lit ''Example'', b_folder = lit ''default'',
         b_favicon = [], b_created_at = lit ''2024-05-01T10:00:00''\<rparr>]"
    by (simp add: example_bookmarks_def BookmarkManager_add_def BookmarkManager_init_def
        BookmarkManager_load_def Bookmark_init_def py_or_def Let_def)
  have f: "bm_folders example_bookmarks = [(lit ''default'', lit ''Default''), (lit ''work'', lit ''Work''),
        (lit ''personal'', lit ''Personal'')]"
    by (simp add: example_bookmarks_def BookmarkManager_add_def BookmarkManager_init_def
        BookmarkManager_load_def Let_def)
  have e: "state_encodable example_bookmarks"
    by (simp add: state_encodable_def b f to_dict_def dict_encodable_def)
  note T = save_load_round_trip [OF r, of "[]" "[]" "[]" "[]" "[]" "[]" None "\<lambda>i. []",
      THEN conjunct2, THEN conjunct2, THEN conjunct1, rule_format, OF e]
  from T e b f show ?thesis by simp
qed


section \<open>The history list\<close>

lemma add_loop_find:
  "add_loop now url title seen es =
     map_option (\<lambda>e. visit now title e # seen @ remove1 e es) (find (\<lambda>e. h_url e = url) es)"
proof (induction es arbitrary: seen)
  case Nil
  show ?case by simp
next
  case (Cons a es)
  show ?case
  proof (cases "h_url a = url")
    case True
    then show ?thesis by (simp add: visit_def)
  next
    case False
    show ?thesis
    proof (cases "find (\<lambda>e. h_url e = url) es")
      case None
      then show ?thesis using False Cons.IH [of "seen @ [a]"] by simp
    next
      case (Some e)
      then have "h_url e = url" by (auto simp: find_Some_iff)
      with False have "e \<noteq> a" by auto
      then show ?thesis using False Some Cons.IH [of "seen @ [a]"] by simp
    qed
  qed
qed

lemma distinct_map_remove1:
  assumes "distinct (map f es)"
  shows "distinct (map f (remove1 e es))"
proof -
  from assms have "distinct es" and "inj_on f (set es)" by (simp_all add: distinct_map)
  moreover have "set (remove1 e es) \<subseteq> set es" by (rule set_remove1_subset)
  ultimately show ?thesis by (auto simp: distinct_map intro: inj_on_subset)
qed

lemma distinct_map_remove1_notin:
  assumes "distinct (map f es)" and "e \<in> set es"
  shows "f e \<notin> f ` set (remove1 e es)"
proof -
  from assms have d: "distinct es" and inj: "inj_on f (set es)" by (simp_all add: distinct_map)
  from d have "set (remove1 e es) = set es - {e}" by (rule set_remove1_eq)
  with inj assms(2) show ?thesis by (auto dest: inj_onD)
qed

lemma distinct_map_slice_to: "distinct (map f xs) \<Longrightarrow> distinct (map f (slice_to k xs))"
  by (simp add: slice_to_def take_map [symmetric])

lemma filter_url_absent: "url \<notin> h_url ` set es \<Longrightarrow> filter (\<lambda>x. h_url x \<noteq> url) es = es"
  by (induction es) auto

lemma remove1_filter_url:
  "distinct (map h_url es) \<Longrightarrow> e \<in> set es \<Longrightarrow> remove1 e es = filter (\<lambda>x. h_url x \<noteq> h_url e) es"
proof (induction es)
  case Nil
  then show ?case by simp
next
  case (Cons a es)
  show ?case
  proof (cases "e = a")
    case True
    with Cons.prems have "h_url e \<notin> h_url ` set es" by simp
    then show ?thesis using True by (simp add: filter_url_absent)
  next
    case False
    with Cons.prems have "e \<in> set es" and "h_url a \<noteq> h_url e" by auto
    with Cons False show ?thesis by simp
  qed
qed

lemma find_url_distinct:
  "distinct (map h_url es) \<Longrightarrow> e \<in> set es \<Longrightarrow> find (\<lambda>x. h_url x = h_url e) es = Some e"
  by (induction es) (auto simp: rev_image_eqI)

lemma find_url_None: "find (\<lambda>x. h_url x = url) es = None \<longleftrightarrow> url \<notin> h_url ` set es"
  by (induction es) auto

lemma add_distinct:
  assumes "distinct (map h_url (hm_history s))"
  shows "distinct (map h_url (hm_history (HistoryManager_add now1 now2 url title favicon s)))"
proof (cases "find (\<lambda>e. h_url e = url) (hm_history s)")
  case None
  then have "url \<notin> h_url ` set (hm_history s)" by (simp add: find_url_None)
  with assms have "distinct (map h_url
      (HistoryEntry_init now1 now2 url (if title = [] then url else title) 1 None favicon # hm_history s))"
    by (simp add: HistoryEntry_init_def)
  then show ?thesis using None
    by (simp add: HistoryManager_add_def add_loop_find HistoryManager_save_def Let_def
        distinct_map_slice_to del: distinct.simps list.map)
next
  case (Some e)
  then have e: "e \<in> set (hm_history s)" "h_url e = url"
    by (auto simp: find_Some_iff)
  have "h_url (visit now1 title e) = h_url e" by (simp add: visit_def)
  with assms e have "distinct (map h_url (visit now1 title e # remove1 e (hm_history s)))"
    using distinct_map_remove1 [of h_url "hm_history s" e]
      distinct_map_remove1_notin [of h_url "hm_history s" e] by simp
  then show ?thesis using Some
    by (simp add: HistoryManager_add_def add_loop_find HistoryManager_save_def)
qed

lemma add_present:
  assumes "distinct (map h_url (hm_history s))" and "e \<in> set (hm_history s)" and "h_url e = url"
  shows "hm_history (HistoryManager_add now1 now2 url title favicon s)
         = visit now1 title e # filter (\<lambda>x. h_url x \<noteq> url) (hm_history s)"
    and "length (hm_history (HistoryManager_add now1 now2 url title favicon s))
         = length (hm_history s)"
proof -
  have h: "hm_history (HistoryManager_add now1 now2 url title favicon s)
         = visit now1 title e # remove1 e (hm_history s)"
    using assms find_url_distinct [of "hm_history s" e]
    by (simp add: HistoryManager_add_def add_loop_find HistoryManager_save_def)
  then show "hm_history (HistoryManager_add now1 now2 url title favicon s)
         = visit now1 title e # filter (\<lambda>x. h_url x \<noteq> url) (hm_history s)"
    using assms remove1_filter_url [of "hm_history s" e] by simp
  from assms(2) have "0 < length (hm_history s)" by (cases "hm_history s") auto
  with h assms(2) show "length (hm_history (HistoryManager_add now1 now2 url title favicon s))
         = length (hm_history s)"
    by (simp add: length_remove1)
qed

lemma remove_distinct:
  "distinct (map h_url (hm_history s)) \<Longrightarrow>
   distinct (map h_url (hm_history (fst (HistoryManager_remove u s))))"
  by (simp add: HistoryManager_remove_def HistoryManager_save_def Let_def distinct_map_filter)

text \<open>
  C10. When no two entries of the history share a url, the same holds after \<open>add\<close>,
  after \<open>remove\<close> and after \<open>clear\<close>. When \<open>add\<close> is given the url of an entry already
  in the list, the list does not grow: that entry moves to the front with its visit count
  raised by one, its last visit set to the clock and its title replaced by the new title
  (kept when the new title is empty), and the other entries follow in their order.
\<close>

theorem history_urls_distinct:
  assumes "distinct (map h_url (hm_history s))"
  shows "distinct (map h_url (hm_history (HistoryManager_add now1 now2 url title favicon s)))
       \<and> distinct (map h_url (hm_history (fst (HistoryManager_remove u s))))
       \<and> distinct (map h_url (hm_history (HistoryManager_clear s)))
       \<and> (\<forall>e \<in> set (hm_history s). h_url e = url \<longrightarrow>
            hm_history (HistoryManager_add now1 now2 url title favicon s)
              = e\<lparr>h_visit_count := h_visit_count e + 1, h_last_visit := now1,
                   h_title := (if title = [] then h_title e else title)\<rparr>
                # filter (\<lambda>x. h_url x \<noteq> url) (hm_history s)
            \<and> length (hm_history (HistoryManager_add now1 now2 url title favicon s))
              = length (hm_history s))"
proof -
  have "distinct (map h_url (hm_history (HistoryManager_clear s)))"
    by (simp add: HistoryManager_clear_def HistoryManager_save_def)
  moreover have "\<forall>e \<in> set (hm_history s). h_url e = url \<longrightarrow>
            hm_history (HistoryManager_add now1 now2 url title favicon s)
              = e\<lparr>h_visit_count := h_visit_count e + 1, h_last_visit := now1,
                   h_title := (if title = [] then h_title e else title)\<rparr>
                # filter (\<lambda>x. h_url x \<noteq> url) (hm_history s)
            \<and> length (hm_history (HistoryManager_add now1 now2 url title favicon s))
              = length (hm_history s)"
    using add_present [OF assms] by (simp add: visit_def)
  ultimately show ?thesis
    using add_distinct [OF assms] remove_distinct [OF assms] by blast
qed

theorem history_urls_distinct_witness:
  "map h_url (hm_history example_history) = [lit ''a.org'', lit ''b.org'']
   \<and> distinct (map h_url (hm_history
         (HistoryManager_add (lit ''t3'') (lit ''t3'') (lit ''b.org'') [] [] example_history)))
   \<and> map h_url (hm_history
         (HistoryManager_add (lit ''t3'') (lit ''t3'') (lit ''b.org'') [] [] example_history))
       = [lit ''b.org'', lit ''a.org'']
   \<and> map h_visit_count (hm_history
         (HistoryManager_add (lit ''t3'') (lit ''t3'') (lit ''b.org'') [] [] example_history))
       = [2, 1]"
proof -
  have urls: "map h_url (hm_history example_history) = [lit ''a.org'', lit ''b.org'']"
    by (simp add: example_history_def HistoryEntry_init_def)
  have d: "distinct (map h_url (hm_history example_history))"
    unfolding urls by (simp add: lit_def)
  have e: "HistoryEntry_init (lit ''t1'') (lit ''t1'') (lit ''b.org'') (lit ''B'') 1 None []
      \<in> set (hm_history example_history)"
    by (simp add: example_history_def)
  have u: "h_url (HistoryEntry_init (lit ''t1'') (lit ''t1'') (lit ''b.org'') (lit ''B'') 1 None [])
      = lit ''b.org''"
    by (simp add: HistoryEntry_init_def)
  note T = history_urls_distinct [OF d, of "lit ''t3''" "lit ''t3''" "lit ''b.org''" "[]" "[]" "[]"]
  note A = T [THEN conjunct1]
  note B = T [THEN conjunct2, THEN conjunct2, THEN conjunct2, rule_format, OF e u, THEN conjunct1]
  have f: "filter (\<lambda>x. h_url x \<noteq> lit ''b.org'') (hm_history example_history)
      = [HistoryEntry_init (lit ''t2'') (lit ''t2'') (lit ''a.org'') (lit ''A'') 1 None []]"
    by (simp add: example_history_def HistoryEntry_init_def lit_def)
  have C: "map h_url (hm_history
         (HistoryManager_add (lit ''t3'') (lit ''t3'') (lit ''b.org'') [] [] example_history))
       = [lit ''b.org'', lit ''a.org'']"
    unfolding B f by (simp add: HistoryEntry_init_def)
  have D: "map h_visit_count (hm_history
         (HistoryManager_add (lit ''t3'') (lit ''t3'') (lit ''b.org'') [] [] example_history))
       = [2, 1]"
    unfolding B f by (simp add: HistoryEntry_init_def)
  from urls A C D show ?thesis by blast
qed


section \<open>Adding and removing todos\<close>

lemma get_loop_append_fresh:
  "\<forall>t \<in> set ts. t_id t \<noteq> i \<Longrightarrow> get_loop i (ts @ [x]) = (if t_id x = i then Some x else None)"
  by (induction ts) auto



text \<open>
  C8. Let \<open>add\<close> build a todo whose generated id differs from the id of every todo
  already stored. Then the returned todo carries the id and every field given to \<open>add\<close>
  (status pending, no subtasks, empty notes), and \<open>get\<close> with its id on the new state
  returns that same todo.
\<close>

theorem add_then_get:
  assumes "\<forall>t \<in> set (tm_todos s). t_id t \<noteq> uid"
  shows "snd (TodoManager_add uid now1 now2 text priority due category tags s)
         = Todo_init uid now1 now2 text priority due category tags
       \<and> t_id (snd (TodoManager_add uid now1 now2 text priority due category tags s)) = uid
       \<and> TodoManager_get uid (fst (TodoManager_add uid now1 now2 text priority due category tags s))
         = Some (snd (TodoManager_add uid now1 now2 text priority due category tags s))
       \<and> t_text (Todo_init uid now1 now2 text priority due category tags) = text
       \<and> t_priority (Todo_init uid now1 now2 text priority due category tags) = priority
       \<and> t_due_date (Todo_init uid now1 now2 text priority due category tags) = due
       \<and> t_category (Todo_init uid now1 now2 text priority due category tags) = category
       \<and> t_tags (Todo_init uid now1 now2 text priority due category tags)
         = (case tags of None \<Rightarrow> [] | Some ts \<Rightarrow> ts)"
proof -
  let ?todo = "Todo_init uid now1 now2 text priority due category tags"
  have id: "t_id ?todo = uid" by (simp add: Todo_init_def)
  have ret: "snd (TodoManager_add uid now1 now2 text priority due category tags s) = ?todo"
    by (simp add: TodoManager_add_def Let_def)
  have "get_loop uid (tm_todos s @ [?todo]) = Some ?todo"
    using assms id by (simp add: get_loop_append_fresh)
  then have got: "TodoManager_get uid
      (fst (TodoManager_add uid now1 now2 text priority due category tags s)) = Some ?todo"
    by (simp add: TodoManager_get_def TodoManager_add_def TodoManager_save_def Let_def)
  have tags: "t_tags ?todo = (case tags of None \<Rightarrow> [] | Some ts \<Rightarrow> ts)"
    by (simp add: Todo_init_def split: option.splits)
  have rest: "t_text ?todo = text \<and> t_priority ?todo = priority \<and> t_due_date ?todo = due
      \<and> t_category ?todo = category"
    by (simp add: Todo_init_def)
  show ?thesis using id ret got tags rest by simp
qed

theorem add_then_get_witness:
  "map t_id (tm_todos example_todos) = [lit ''aaaaaaaa'']
   \<and> TodoManager_get (lit ''bbbbbbbb'')
        (fst (TodoManager_add (lit ''bbbbbbbb'') (lit ''t1'') (lit ''t2'') (lit ''milk'') (lit ''high'')
           None (lit ''shopping'') (Some [lit ''food'']) example_todos))
      = Some (Todo_init (lit ''bbbbbbbb'') (lit ''t1'') (lit ''t2'') (lit ''milk'') (lit ''high'')
           None (lit ''shopping'') (Some [lit ''food'']))"
proof -
  have fresh: "\<forall>t \<in> set (tm_todos example_todos). t_id t \<noteq> lit ''bbbbbbbb''"
    by (simp add: example_todos_def Todo_init_def lit_def)
  from add_then_get [OF fresh, of "lit ''t1''" "lit ''t2''" "lit ''milk''" "lit ''high''" None
      "lit ''shopping''" "Some [lit ''food'']"]
  have "TodoManager_get (lit ''bbbbbbbb'')
        (fst (TodoManager_add (lit ''bbbbbbbb'') (lit ''t1'') (lit ''t2'') (lit ''milk'') (lit ''high'')
           None (lit ''shopping'') (Some [lit ''food'']) example_todos))
      = Some (Todo_init (lit ''bbbbbbbb'') (lit ''t1'') (lit ''t2'') (lit ''milk'') (lit ''high'')
           None (lit ''shopping'') (Some [lit ''food'']))"
    by metis
  then show ?thesis by (simp add: example_todos_def Todo_init_def)
qed



section \<open>Folders and categories\<close>

lemma bm_add_inv:
  "folders_exist (fst (BookmarkManager_add now url title folder favicon s))
   \<longleftrightarrow> folders_exist s \<and> folder \<in> fst ` set (bm_folders s)"
  by (auto simp: folders_exist_def BookmarkManager_add_def returning_def
      Bookmark_init_def Let_def)

lemma bm_remove_inv: "folders_exist s \<Longrightarrow> folders_exist (fst (BookmarkManager_remove url s))"
  by (simp add: folders_exist_def BookmarkManager_remove_def returning_def Let_def)

lemma bm_add_folder_inv: "folders_exist s \<Longrightarrow> folders_exist (fst (add_folder name display_name s))"
  by (auto simp: folders_exist_def add_folder_def returning_def)

lemma keys_filter:
  "k \<in> fst ` set (filter (\<lambda>kv. fst kv \<noteq> name) fs) \<longleftrightarrow> k \<in> fst ` set fs \<and> k \<noteq> name"
  by force

lemma bm_remove_folder_inv:
  assumes "folders_exist s" and "lit ''default'' \<in> fst ` set (bm_folders s)"
  shows "folders_exist (fst (remove_folder name s))"
proof (cases "name \<in> fst ` set (bm_folders s) \<and> name \<noteq> lit ''default''")
  case False
  then have "fst (remove_folder name s) = s" by (auto simp: remove_folder_def)
  with assms(1) show ?thesis by simp
next
  case True
  have "b_folder b \<in> fst ` set (filter (\<lambda>kv. fst kv \<noteq> name) (bm_folders s))"
    if "b \<in> set (map (\<lambda>b. if b_folder b = name then b\<lparr>b_folder := lit ''default''\<rparr> else b)
                    (bm_bookmarks s))" for b
  proof -
    from that obtain b0 where b0: "b0 \<in> set (bm_bookmarks s)"
      and b: "b = (if b_folder b0 = name then b0\<lparr>b_folder := lit ''default''\<rparr> else b0)"
      by auto
    from assms(1) b0 have "b_folder b0 \<in> fst ` set (bm_folders s)"
      by (simp add: folders_exist_def)
    with b True assms(2) have "b_folder b \<in> fst ` set (bm_folders s) \<and> b_folder b \<noteq> name"
      by (cases "b_folder b0 = name") auto
    then show ?thesis by (simp add: keys_filter del: set_filter)
  qed
  then show ?thesis using True
    by (simp add: remove_folder_def folders_exist_def returning_def del: set_filter set_map)
qed

lemma bm_default_kept:
  assumes "lit ''default'' \<in> fst ` set (bm_folders s)"
  shows "lit ''default'' \<in> fst ` set (bm_folders (fst (BookmarkManager_add now url title folder favicon s)))"
    and "lit ''default'' \<in> fst ` set (bm_folders (fst (BookmarkManager_remove url s)))"
    and "lit ''default'' \<in> fst ` set (bm_folders (fst (add_folder name display_name s)))"
    and "lit ''default'' \<in> fst ` set (bm_folders (fst (remove_folder name s)))"
proof -
  show "lit ''default'' \<in> fst ` set (bm_folders (fst (BookmarkManager_add now url title folder favicon s)))"
    using assms by (simp add: BookmarkManager_add_def returning_def Let_def)
  show "lit ''default'' \<in> fst ` set (bm_folders (fst (BookmarkManager_remove url s)))"
    using assms by (simp add: BookmarkManager_remove_def returning_def Let_def)
  show "lit ''default'' \<in> fst ` set (bm_folders (fst (add_folder name display_name s)))"
    using assms by (auto simp: add_folder_def returning_def)
  show "lit ''default'' \<in> fst ` set (bm_folders (fst (remove_folder name s)))"
    using assms by (auto simp add: remove_folder_def returning_def keys_filter simp del: set_filter)
qed

lemma tm_add_inv:
  "categories_exist (fst (TodoManager_add uid now1 now2 text priority due category tags m))
   \<longleftrightarrow> categories_exist m \<and> category \<in> set (tm_categories m)"
  by (auto simp: categories_exist_def TodoManager_add_def TodoManager_save_def Todo_init_def Let_def)

lemma tm_remove_inv: "categories_exist m \<Longrightarrow> categories_exist (fst (TodoManager_remove i m))"
  by (simp add: categories_exist_def TodoManager_remove_def TodoManager_save_def Let_def)

lemma tm_add_category_inv: "categories_exist m \<Longrightarrow> categories_exist (TodoManager_add_category c m)"
  by (auto simp: categories_exist_def TodoManager_add_category_def TodoManager_save_def)

lemma in_remove1_other: "x \<in> set xs \<Longrightarrow> x \<noteq> y \<Longrightarrow> x \<in> set (remove1 y xs)"
  by (induction xs) auto

lemma tm_remove_category_inv:
  assumes "categories_exist m" and "lit ''default'' \<in> set (tm_categories m)"
  shows "categories_exist (fst (TodoManager_remove_category c m))"
    and "lit ''default'' \<in> set (tm_categories (fst (TodoManager_remove_category c m)))"
proof -
  show "categories_exist (fst (TodoManager_remove_category c m))"
    using assms
    by (auto simp: categories_exist_def TodoManager_remove_category_def TodoManager_save_def
        intro: in_remove1_other)
  show "lit ''default'' \<in> set (tm_categories (fst (TodoManager_remove_category c m)))"
    using assms
    by (auto simp: TodoManager_remove_category_def TodoManager_save_def intro: in_remove1_other)
qed

text \<open>
  C5 as stated fails: \<open>add\<close> stores the folder (the category) it is given without
  looking it up, so a manager started without a file holds, after one \<open>add\<close> with the
  folder \<^verbatim>\<open>'nope'\<close>, a bookmark whose folder is no key of the folders; likewise for a todo.
\<close>

theorem folder_must_exist_counterexample:
  "reachable (fst (BookmarkManager_add (lit ''2024-05-01T10:00:00'') (lit ''https://example.com'')
       (lit ''Example'') (lit ''nope'') [] (BookmarkManager_init (\<lambda>i. lit ''2024-05-01T09:00:00'') NoFile)))
   \<and> \<not> folders_exist (fst (BookmarkManager_add (lit ''2024-05-01T10:00:00'') (lit ''https://example.com'')
       (lit ''Example'') (lit ''nope'') [] (BookmarkManager_init (\<lambda>i. lit ''2024-05-01T09:00:00'') NoFile)))
   \<and> \<not> categories_exist (fst (TodoManager_add (lit ''bbbbbbbb'') (lit ''t1'') (lit ''t2'') (lit ''milk'')
       (lit ''high'') None (lit ''nope'') None (TodoManager_init None)))"
proof -
  have "reachable (fst (BookmarkManager_add (lit ''2024-05-01T10:00:00'') (lit ''https://example.com'')
       (lit ''Example'') (lit ''nope'') [] (BookmarkManager_init (\<lambda>i. lit ''2024-05-01T09:00:00'') NoFile)))"
    by (rule r_add, rule r_init) simp_all
  moreover have "\<not> folders_exist (fst (BookmarkManager_add (lit ''2024-05-01T10:00:00'')
       (lit ''https://example.com'') (lit ''Example'') (lit ''nope'') []
       (BookmarkManager_init (\<lambda>i. lit ''2024-05-01T09:00:00'') NoFile)))"
    by (simp add: folders_exist_def BookmarkManager_add_def BookmarkManager_init_def
        BookmarkManager_load_def returning_def Bookmark_init_def Let_def)
  moreover have "\<not> categories_exist (fst (TodoManager_add (lit ''bbbbbbbb'') (lit ''t1'') (lit ''t2'')
       (lit ''milk'') (lit ''high'') None (lit ''nope'') None (TodoManager_init None)))"
    by (simp add: categories_exist_def TodoManager_add_def TodoManager_init_def TodoManager_load_def
        TodoManager_save_def Todo_init_def Let_def)
  ultimately show ?thesis by blast
qed

text \<open>
  C5, amended. In a state where every bookmark's folder is a key of the folders and
  \<^verbatim>\<open>'default'\<close> is a key, \<open>add\<close> keeps this exactly when its folder argument is a key;
  \<open>remove\<close>, \<open>add_folder\<close> and \<open>remove_folder\<close> keep it, and \<open>remove_folder\<close> keeps
  \<^verbatim>\<open>'default'\<close>. The same holds for the todos and the categories.
\<close>

theorem folder_invariant_preserved:
  assumes "folders_exist s" and "lit ''default'' \<in> fst ` set (bm_folders s)"
    and "categories_exist m" and "lit ''default'' \<in> set (tm_categories m)"
  shows "(folders_exist (fst (BookmarkManager_add now url title folder favicon s))
            \<longleftrightarrow> folder \<in> fst ` set (bm_folders s))
       \<and> folders_exist (fst (BookmarkManager_remove url s))
       \<and> folders_exist (fst (add_folder name display_name s))
       \<and> folders_exist (fst (remove_folder name s))
       \<and> lit ''default'' \<in> fst ` set (bm_folders (fst (remove_folder name s)))
       \<and> (categories_exist (fst (TodoManager_add uid now1 now2 text priority due category tags m))
            \<longleftrightarrow> category \<in> set (tm_categories m))
       \<and> categories_exist (fst (TodoManager_remove i m))
       \<and> categories_exist (TodoManager_add_category c m)
       \<and> categories_exist (fst (TodoManager_remove_category c m))
       \<and> lit ''default'' \<in> set (tm_categories (fst (TodoManager_remove_category c m)))"
proof -
  have "folders_exist (fst (BookmarkManager_add now url title folder favicon s))
            \<longleftrightarrow> folder \<in> fst ` set (bm_folders s)"
    using assms(1) by (simp add: bm_add_inv)
  moreover have "categories_exist (fst (TodoManager_add uid now1 now2 text priority due category tags m))
            \<longleftrightarrow> category \<in> set (tm_categories m)"
    using assms(3) by (simp add: tm_add_inv)
  moreover note bm_remove_inv [OF assms(1), of url] bm_add_folder_inv [OF assms(1), of name display_name]
    bm_remove_folder_inv [OF assms(1,2), of name] bm_default_kept(4) [OF assms(2), of name]
    tm_remove_inv [OF assms(3), of i] tm_add_category_inv [OF assms(3), of c]
    tm_remove_category_inv [OF assms(3,4), of c]
  ultimately show ?thesis by blast
qed

theorem folder_invariant_preserved_witness:
  "folders_exist example_bookmarks
   \<and> categories_exist example_todos
   \<and> folders_exist (fst (BookmarkManager_add [] [] [] (lit ''work'') [] example_bookmarks))
   \<and> \<not> folders_exist (fst (BookmarkManager_add [] [] [] (lit ''nope'') [] example_bookmarks))
   \<and> folders_exist (fst (remove_folder (lit ''work'') example_bookmarks))
   \<and> categories_exist (fst (TodoManager_remove_category (lit ''shopping'') example_todos))"
proof -
  have f: "bm_folders example_bookmarks
      = [(lit ''default'', lit ''Default''), (lit ''work'', lit ''Work''),
         (lit ''personal'', lit ''Personal'')]"
    by (simp add: example_bookmarks_def BookmarkManager_add_def BookmarkManager_init_def
        BookmarkManager_load_def returning_def Let_def)
  have b: "map b_folder (bm_bookmarks example_bookmarks) = [lit ''default'']"
    by (simp add: example_bookmarks_def BookmarkManager_add_def BookmarkManager_init_def
        BookmarkManager_load_def returning_def Bookmark_init_def Let_def)
  have "set (map b_folder (bm_bookmarks example_bookmarks)) \<subseteq> fst ` set (bm_folders example_bookmarks)"
    unfolding b f by simp
  then have 1: "folders_exist example_bookmarks"
    by (auto simp: folders_exist_def)
  have 2: "lit ''default'' \<in> fst ` set (bm_folders example_bookmarks)"
    by (simp add: f)
  have 3: "categories_exist example_todos"
    by (simp add: categories_exist_def example_todos_def Todo_init_def)
  have 4: "lit ''default'' \<in> set (tm_categories example_todos)"
    by (simp add: example_todos_def)
  note T = folder_invariant_preserved [OF 1 2 3 4]
  have w: "lit ''work'' \<in> fst ` set (bm_folders example_bookmarks)" by (simp add: f)
  have n: "lit ''nope'' \<notin> fst ` set (bm_folders example_bookmarks)" by (simp add: f)
  from T [where folder = "lit ''work''" and now = "[]" and url = "[]" and title = "[]"
      and favicon = "[]", THEN conjunct1] w
  have 5: "folders_exist (fst (BookmarkManager_add [] [] [] (lit ''work'') [] example_bookmarks))"
    by simp
  from T [where folder = "lit ''nope''" and now = "[]" and url = "[]" and title = "[]"
      and favicon = "[]", THEN conjunct1] n
  have 6: "\<not> folders_exist (fst (BookmarkManager_add [] [] [] (lit ''nope'') [] example_bookmarks))"
    by simp
  note 7 = T [where name = "lit ''work''",
      THEN conjunct2, THEN conjunct2, THEN conjunct2, THEN conjunct1]
  note 8 = T [where c = "lit ''shopping''",
      THEN conjunct2, THEN conjunct2, THEN conjunct2, THEN conjunct2, THEN conjunct2,
      THEN conjunct2, THEN conjunct2, THEN conjunct2, THEN conjunct1]
  from 1 3 5 6 7 8 show ?thesis by blast
qed

section \<open>Search results\<close>

lemma startswith_iff: "startswith s p \<longleftrightarrow> (\<exists>suf. s = p @ suf)"
proof
  assume "startswith s p"
  then have "s = p @ drop (length p) s"
    by (metis append_take_drop_id startswith_def)
  then show "\<exists>suf. s = p @ suf" ..
next
  assume "\<exists>suf. s = p @ suf"
  then show "startswith s p" by (auto simp: startswith_def)
qed

lemma str_in_iff: "str_in q s \<longleftrightarrow> (\<exists>pre suf. s = pre @ q @ suf)"
proof (induction s)
  case Nil
  show ?case by auto
next
  case (Cons c cs)
  have "(\<exists>pre suf. c # cs = pre @ q @ suf)
        \<longleftrightarrow> (\<exists>suf. c # cs = q @ suf) \<or> (\<exists>pre suf. cs = pre @ q @ suf)"
  proof
    assume "\<exists>pre suf. c # cs = pre @ q @ suf"
    then obtain pre suf where e: "c # cs = pre @ q @ suf" by blast
    show "(\<exists>suf. c # cs = q @ suf) \<or> (\<exists>pre suf. cs = pre @ q @ suf)"
    proof (cases pre)
      case Nil
      with e show ?thesis by auto
    next
      case (Cons p ps)
      with e have "cs = ps @ q @ suf" by simp
      then show ?thesis by blast
    qed
  next
    assume "(\<exists>suf. c # cs = q @ suf) \<or> (\<exists>pre suf. cs = pre @ q @ suf)"
    then show "\<exists>pre suf. c # cs = pre @ q @ suf"
    proof
      assume "\<exists>suf. c # cs = q @ suf"
      then obtain suf where "c # cs = [] @ q @ suf" by auto
      then show ?thesis by blast
    next
      assume "\<exists>pre suf. cs = pre @ q @ suf"
      then obtain pre suf where "c # cs = (c # pre) @ q @ suf" by auto
      then show ?thesis by blast
    qed
  qed
  with Cons show ?case by (simp add: startswith_iff)
qed

lemma str_in_occurs: "str_in q s \<longleftrightarrow> occurs q s"
  by (simp add: str_in_iff occurs_def)

lemma same_ignoring_case_map: "same_ignoring_case lc w q \<longleftrightarrow> map lc w = map lc q"
proof -
  have "list_all2 (\<lambda>a b. lc a = lc b) w q \<longleftrightarrow> list_all2 (=) (map lc w) (map lc q)"
    by (simp add: list_all2_map1 list_all2_map2)
  then show ?thesis by (simp add: same_ignoring_case_def list.rel_eq)
qed

lemma occurs_map: "occurs (map lc q) (map lc s) \<longleftrightarrow> ci_substring lc q s"
proof
  assume "occurs (map lc q) (map lc s)"
  then obtain pre suf where "map lc s = pre @ map lc q @ suf"
    by (auto simp: occurs_def)
  then have "\<exists>us vs. s = us @ vs \<and> pre = map lc us \<and> map lc q @ suf = map lc vs"
    by (simp add: map_eq_append_conv)
  then obtain us vs where s: "s = us @ vs" and r: "map lc q @ suf = map lc vs"
    by blast
  from r have "\<exists>w t. vs = w @ t \<and> map lc q = map lc w \<and> suf = map lc t"
    by (simp add: append_eq_map_conv)
  then obtain w t where vs: "vs = w @ t" and w: "map lc w = map lc q"
    by auto
  from s vs have "occurs w s" unfolding occurs_def by blast
  moreover from w have "same_ignoring_case lc w q" by (simp add: same_ignoring_case_map)
  ultimately show "ci_substring lc q s" unfolding ci_substring_def by blast
next
  assume "ci_substring lc q s"
  then obtain w pre suf where "s = pre @ w @ suf" and "map lc w = map lc q"
    by (auto simp: ci_substring_def occurs_def same_ignoring_case_map)
  then have "map lc s = map lc pre @ map lc q @ map lc suf" by simp
  then show "occurs (map lc q) (map lc s)" unfolding occurs_def by blast
qed

lemma str_in_charwise:
  assumes "charwise lower lc q" and "charwise lower lc s"
  shows "str_in (lower q) (lower s) \<longleftrightarrow> ci_substring lc q s"
  using assms by (simp add: charwise_def str_in_occurs occurs_map)

lemma ascii_charwise: "charwise ascii_lower ascii_fold s"
  by (simp add: charwise_def ascii_lower_def ascii_fold_def)

lemma set_slice_to: "set (slice_to k xs) \<subseteq> set xs"
  by (auto simp: slice_to_def dest: in_set_takeD)

lemma slice_to_all: "int (length xs) \<le> k \<Longrightarrow> slice_to k xs = xs"
  by (simp add: slice_to_def)

lemma str_in_set: "str_in q s \<Longrightarrow> set q \<subseteq> set s"
  by (auto simp: str_in_iff)

text \<open>
  C6 as stated fails for the history: with the default limits, \<^verbatim>\<open>search(query)\<close> cuts the
  matches at 50 and \<^verbatim>\<open>get_all()\<close> returns the first 100 entries only, so in a history of
  101 entries whose last entry alone matches, the search result is not among
  \<^verbatim>\<open>get_all()\<close>.
\<close>

theorem search_subset_counterexample:
  "\<not> set (HistoryManager_search ascii_lower (lit ''x'') 50 busy_history)
       \<subseteq> set (HistoryManager_get_all 100 busy_history)"
proof -
  let ?f = "\<lambda>n. HistoryEntry_init (lit ''t'') (lit ''t'') (replicate (Suc n) 97)
                    (replicate (Suc n) 97) 1 None []"
  let ?x = "HistoryEntry_init (lit ''t'') (lit ''t'') (lit ''x.org'') (lit ''X'') 1 None []"
  let ?P = "\<lambda>h. str_in (ascii_lower (lit ''x'')) (ascii_lower (h_title h))
              \<or> str_in (ascii_lower (lit ''x'')) (ascii_lower (h_url h))"
  have q: "ascii_lower (lit ''x'') = [120]" by (simp add: ascii_lower_def lit_def)
  have no: "\<not> ?P (?f n)" for n
  proof
    assume "?P (?f n)"
    then have "str_in [120] (ascii_lower (replicate (Suc n) 97))"
      unfolding q by (simp add: HistoryEntry_init_def)
    then have "set [120::nat] \<subseteq> set (ascii_lower (replicate (Suc n) 97))" by (rule str_in_set)
    then show False by (simp add: ascii_lower_def)
  qed
  have yes: "?P ?x" by (simp add: HistoryEntry_init_def ascii_lower_def lit_def startswith_def)
  define xs where "xs = map ?f [0..<100]"
  have len: "length xs = 100" by (simp add: xs_def)
  have "\<forall>h \<in> set xs. \<not> ?P h" using no by (auto simp: xs_def simp del: upt_Suc)
  then have none: "filter ?P xs = []" by (simp only: filter_empty_conv) 
  have hist: "hm_history busy_history = xs @ [?x]" by (simp add: busy_history_def xs_def)
  have one: "filter ?P [?x] = [?x]" using yes by (simp only: filter.simps if_True)
  have "filter ?P (xs @ [?x]) = [?x]" by (simp only: filter_append none one append_Nil)
  then have found: "HistoryManager_search ascii_lower (lit ''x'') 50 busy_history = [?x]"
    unfolding HistoryManager_search_def Let_def hist by (simp add: slice_to_def)
  have all: "HistoryManager_get_all 100 busy_history = xs"
    unfolding HistoryManager_get_all_def hist by (simp add: slice_to_def len)
  have "?x \<noteq> ?f n" for n
    by (simp add: HistoryEntry_init_def lit_def)
  then have "?x \<notin> set xs" unfolding xs_def by (auto simp del: upt_Suc replicate.simps)
  then show ?thesis unfolding found all by simp
qed

text \<open>
  C6, amended. \<open>BookmarkManager.search\<close> returns, in order, exactly the bookmarks of
  \<open>get_all\<close> for which the lower-cased query occurs in the lower-cased title or url.
  \<open>HistoryManager.search\<close> returns the first \<open>limit\<close> such entries of the whole history
  (all of them when the limit is at least the length of the history), a subset of the
  history. \<open>TodoManager.search\<close> returns exactly the todos of \<open>get_all\<close> for which the
  lower-cased query occurs in the lower-cased text or notes. Whenever \<^verbatim>\<open>str.lower\<close> acts
  character by character on the query and on the stored fields, as it does on ASCII text,
  these are exactly the entities of which the title or url (the text or notes of a todo)
  contains the query as a case-insensitive substring.
\<close>

theorem search_results:
  "BookmarkManager_search lower q b
     = filter (\<lambda>x. occurs (lower q) (lower (b_title x)) \<or> occurs (lower q) (lower (b_url x)))
         (BookmarkManager_get_all b)
   \<and> HistoryManager_search lower q limit h
     = slice_to limit
         (filter (\<lambda>x. occurs (lower q) (lower (h_title x)) \<or> occurs (lower q) (lower (h_url x)))
            (hm_history h))
   \<and> set (HistoryManager_search lower q limit h) \<subseteq> set (hm_history h)
   \<and> (int (length (hm_history h)) \<le> limit \<longrightarrow>
        HistoryManager_search lower q limit h
          = filter (\<lambda>x. occurs (lower q) (lower (h_title x)) \<or> occurs (lower q) (lower (h_url x)))
              (hm_history h))
   \<and> TodoManager_search lower q t
     = filter (\<lambda>x. occurs (lower q) (lower (t_text x)) \<or> occurs (lower q) (lower (t_notes x)))
         (TodoManager_get_all t)
   \<and> (charwise lower lc q
        \<and> (\<forall>x \<in> set (bm_bookmarks b).
              charwise lower lc (b_title x) \<and> charwise lower lc (b_url x)) \<longrightarrow>
        BookmarkManager_search lower q b
          = filter (\<lambda>x. ci_substring lc q (b_title x) \<or> ci_substring lc q (b_url x))
              (BookmarkManager_get_all b))
   \<and> (charwise lower lc q
        \<and> (\<forall>x \<in> set (hm_history h).
              charwise lower lc (h_title x) \<and> charwise lower lc (h_url x)) \<longrightarrow>
        HistoryManager_search lower q limit h
          = slice_to limit
              (filter (\<lambda>x. ci_substring lc q (h_title x) \<or> ci_substring lc q (h_url x))
                 (hm_history h)))
   \<and> (charwise lower lc q
        \<and> (\<forall>x \<in> set (tm_todos t).
              charwise lower lc (t_text x) \<and> charwise lower lc (t_notes x)) \<longrightarrow>
        TodoManager_search lower q t
          = filter (\<lambda>x. ci_substring lc q (t_text x) \<or> ci_substring lc q (t_notes x))
              (TodoManager_get_all t))"
proof -
  have b: "BookmarkManager_search lower q b
     = filter (\<lambda>x. occurs (lower q) (lower (b_title x)) \<or> occurs (lower q) (lower (b_url x)))
         (BookmarkManager_get_all b)"
    by (simp add: BookmarkManager_search_def BookmarkManager_get_all_def str_in_occurs Let_def)
  have h: "HistoryManager_search lower q limit h
     = slice_to limit
         (filter (\<lambda>x. occurs (lower q) (lower (h_title x)) \<or> occurs (lower q) (lower (h_url x)))
            (hm_history h))"
    by (simp add: HistoryManager_search_def str_in_occurs Let_def)
  have sub: "set (HistoryManager_search lower q limit h) \<subseteq> set (hm_history h)"
    unfolding h using set_slice_to [of limit] by fastforce
  have full: "int (length (hm_history h)) \<le> limit \<longrightarrow>
        HistoryManager_search lower q limit h
          = filter (\<lambda>x. occurs (lower q) (lower (h_title x)) \<or> occurs (lower q) (lower (h_url x)))
              (hm_history h)"
  proof
    assume l: "int (length (hm_history h)) \<le> limit"
    have "length (filter (\<lambda>x. occurs (lower q) (lower (h_title x)) \<or> occurs (lower q) (lower (h_url x)))
              (hm_history h)) \<le> length (hm_history h)"
      by (rule length_filter_le)
    with l show "HistoryManager_search lower q limit h
          = filter (\<lambda>x. occurs (lower q) (lower (h_title x)) \<or> occurs (lower q) (lower (h_url x)))
              (hm_history h)"
      unfolding h by (intro slice_to_all) linarith
  qed
  have t: "TodoManager_search lower q t
     = filter (\<lambda>x. occurs (lower q) (lower (t_text x)) \<or> occurs (lower q) (lower (t_notes x)))
         (TodoManager_get_all t)"
    by (simp add: TodoManager_search_def TodoManager_get_all_def str_in_occurs Let_def)
  have cb: "charwise lower lc q
        \<and> (\<forall>x \<in> set (bm_bookmarks b).
              charwise lower lc (b_title x) \<and> charwise lower lc (b_url x)) \<longrightarrow>
        BookmarkManager_search lower q b
          = filter (\<lambda>x. ci_substring lc q (b_title x) \<or> ci_substring lc q (b_url x))
              (BookmarkManager_get_all b)"
  proof
    assume a: "charwise lower lc q
        \<and> (\<forall>x \<in> set (bm_bookmarks b).
              charwise lower lc (b_title x) \<and> charwise lower lc (b_url x))"
    then have "\<forall>x \<in> set (bm_bookmarks b).
        (str_in (lower q) (lower (b_title x)) \<or> str_in (lower q) (lower (b_url x)))
        = (ci_substring lc q (b_title x) \<or> ci_substring lc q (b_url x))"
      by (auto simp: str_in_charwise)
    then show "BookmarkManager_search lower q b
          = filter (\<lambda>x. ci_substring lc q (b_title x) \<or> ci_substring lc q (b_url x))
              (BookmarkManager_get_all b)"
      unfolding BookmarkManager_search_def BookmarkManager_get_all_def Let_def
      by (intro filter_cong) auto
  qed
  have ch: "charwise lower lc q
        \<and> (\<forall>x \<in> set (hm_history h).
              charwise lower lc (h_title x) \<and> charwise lower lc (h_url x)) \<longrightarrow>
        HistoryManager_search lower q limit h
          = slice_to limit
              (filter (\<lambda>x. ci_substring lc q (h_title x) \<or> ci_substring lc q (h_url x))
                 (hm_history h))"
  proof
    assume a: "charwise lower lc q
        \<and> (\<forall>x \<in> set (hm_history h).
              charwise lower lc (h_title x) \<and> charwise lower lc (h_url x))"
    then have "\<forall>x \<in> set (hm_history h).
        (str_in (lower q) (lower (h_title x)) \<or> str_in (lower q) (lower (h_url x)))
        = (ci_substring lc q (h_title x) \<or> ci_substring lc q (h_url x))"
      by (auto simp: str_in_charwise)
    then have "filter (\<lambda>x. str_in (lower q) (lower (h_title x)) \<or> str_in (lower q) (lower (h_url x)))
          (hm_history h)
        = filter (\<lambda>x. ci_substring lc q (h_title x) \<or> ci_substring lc q (h_url x))
          (hm_history h)"
      by (intro filter_cong) auto
    then show "HistoryManager_search lower q limit h
          = slice_to limit
              (filter (\<lambda>x. ci_substring lc q (h_title x) \<or> ci_substring lc q (h_url x))
                 (hm_history h))"
      by (simp add: HistoryManager_search_def)
  qed
  have ct: "charwise lower lc q
        \<and> (\<forall>x \<in> set (tm_todos t).
              charwise lower lc (t_text x) \<and> charwise lower lc (t_notes x)) \<longrightarrow>
        TodoManager_search lower q t
          = filter (\<lambda>x. ci_substring lc q (t_text x) \<or> ci_substring lc q (t_notes x))
              (TodoManager_get_all t)"
  proof
    assume a: "charwise lower lc q
        \<and> (\<forall>x \<in> set (tm_todos t).
              charwise lower lc (t_text x) \<and> charwise lower lc (t_notes x))"
    then have "\<forall>x \<in> set (tm_todos t).
        (str_in (lower q) (lower (t_text x)) \<or> str_in (lower q) (lower (t_notes x)))
        = (ci_substring lc q (t_text x) \<or> ci_substring lc q (t_notes x))"
      by (auto simp: str_in_charwise)
    then show "TodoManager_search lower q t
          = filter (\<lambda>x. ci_substring lc q (t_text x) \<or> ci_substring lc q (t_notes x))
              (TodoManager_get_all t)"
      unfolding TodoManager_search_def TodoManager_get_all_def Let_def
      by (intro filter_cong) auto
  qed
  from b h sub full t cb ch ct show ?thesis by blast
qed

theorem search_results_witness:
  "charwise ascii_lower ascii_fold (lit ''B.O'')
   \<and> HistoryManager_search ascii_lower (lit ''B.O'') 50 example_history
     = slice_to 50
         (filter (\<lambda>x. ci_substring ascii_fold (lit ''B.O'') (h_title x)
                      \<or> ci_substring ascii_fold (lit ''B.O'') (h_url x))
            (hm_history example_history))
   \<and> map h_url (HistoryManager_search ascii_lower (lit ''B.O'') 50 example_history) = [lit ''b.org'']"
proof -
  have c: "charwise ascii_lower ascii_fold (lit ''B.O'')
        \<and> (\<forall>x \<in> set (hm_history example_history).
              charwise ascii_lower ascii_fold (h_title x) \<and> charwise ascii_lower ascii_fold (h_url x))"
    by (simp add: ascii_charwise)
  note T = search_results [where lower = ascii_lower and lc = ascii_fold and q = "lit ''B.O''"
      and limit = 50 and h = example_history,
      THEN conjunct2, THEN conjunct2, THEN conjunct2, THEN conjunct2, THEN conjunct2,
      THEN conjunct2, THEN conjunct1, rule_format, OF c]
  have "map h_url (HistoryManager_search ascii_lower (lit ''B.O'') 50 example_history) = [lit ''b.org'']"
    by (simp add: HistoryManager_search_def example_history_def HistoryEntry_init_def
        ascii_lower_def slice_to_def startswith_def lit_def)
  with T ascii_charwise [of "lit ''B.O''"] show ?thesis by blast
qed

text \<open>
  Why the amended claim speaks of \<^verbatim>\<open>str.lower\<close> acting character by character: the title
  below holds the query, a capital sigma, as it stands, and the search does not return the
  bookmark, since the sigma that ends the lower-cased title is the final one.
\<close>

lemma final_sigma_not_found:
  "str_in [931] (b_title (hd (bm_bookmarks greek_bookmarks)))
   \<and> greek_lower (b_title (hd (bm_bookmarks greek_bookmarks))) = [959, 948, 959, 962]
   \<and> greek_lower [931] = [963]
   \<and> BookmarkManager_search greek_lower [931] greek_bookmarks = []"
proof -
  have b: "bm_bookmarks greek_bookmarks
      = [\<lparr>b_url = lit ''https://example.com/street'', b_title = [927, 916, 927, 931],
          b_folder = lit ''default'', b_favicon = [], b_created_at = lit ''2024-05-01T10:00:00''\<rparr>]"
    by (simp add: greek_bookmarks_def BookmarkManager_add_def BookmarkManager_init_def
        BookmarkManager_load_def Bookmark_init_def py_or_def Let_def)
  have t: "greek_lower [927, 916, 927, 931] = [959, 948, 959, 962]"
    by (simp add: greek_lower_def enumerate_eq_zip upt_rec)
  have q: "greek_lower [931] = [963]"
    by (simp add: greek_lower_def)
  have u: "\<not> str_in [963] (greek_lower (lit ''https://example.com/street''))"
  proof
    assume "str_in [963] (greek_lower (lit ''https://example.com/street''))"
    then have "set [963::nat] \<subseteq> set (greek_lower (lit ''https://example.com/street''))"
      by (rule str_in_set)
    moreover have "\<forall>c \<in> set (greek_lower (lit ''https://example.com/street'')). c < 256"
      by (auto simp: greek_lower_def lit_def in_set_enumerate_eq)
    ultimately show False by auto
  qed
  have n: "\<not> str_in [963] [959, 948, 959, 962]"
    by (simp add: startswith_def)
  have "BookmarkManager_search greek_lower [931] greek_bookmarks = []"
    using u n by (simp add: BookmarkManager_search_def b t q)
  moreover have "str_in [931] (b_title (hd (bm_bookmarks greek_bookmarks)))"
    by (simp add: b startswith_def)
  ultimately show ?thesis using t q by (simp add: b)
qed

section \<open>Translation\<close>

lemma detect_language_total: "text \<noteq> [] \<Longrightarrow> \<exists>d. detect_language text = Inr d"
  by (simp add: detect_language_def Let_def)

text \<open>
  C7 as stated fails: for the target \<^verbatim>\<open>'en'\<close> and the source \<^verbatim>\<open>'ru'\<close> the translated field
  of \<^verbatim>\<open>translate('hello', 'ru', 'en')\<close> is \<^verbatim>\<open>'[English] hello'\<close>, not \<^verbatim>\<open>'[en] hello'\<close>.
\<close>

theorem translated_is_bracket_code_counterexample:
  "Translator_translate (lit ''hello'') (lit ''ru'') (Some (lit ''en'')) (Translator_init Missing)
     = (\<lparr>tr_source_lang = lit ''auto'', tr_target_lang = lit ''en'',
         tr_history = [TranslationResult_init (lit ''hello'') (lit ''[English] hello'')
                         (lit ''ru'') (lit ''en'')],
         tr_favorites = [],
         tr_file = Saved \<lparr>doc_history = [TranslationResult_init (lit ''hello'')
                                            (lit ''[English] hello'') (lit ''ru'') (lit ''en'')],
                           doc_favorites = []\<rparr>\<rparr>,
        Inr (Some (TranslationResult_init (lit ''hello'') (lit ''[English] hello'') (lit ''ru'') (lit ''en''))))
   \<and> r_translated (TranslationResult_init (lit ''hello'') (lit ''[English] hello'') (lit ''ru'') (lit ''en''))
     \<noteq> lit ''['' @ lit ''en'' @ lit ''] '' @ lit ''hello''"
proof -
  have name: "dict_get lang_names (lit ''en'') (lit ''en'') = lit ''English''"
    by (simp add: dict_get_def lang_names_def)
  have joined: "lit ''['' @ lit ''English'' @ lit ''] '' @ lit ''hello'' = lit ''[English] hello''"
    by (simp add: lit_def)
  have "translate_text (lit ''hello'') (lit ''ru'') (lit ''en'') = Inr (lit ''[English] hello'')"
    by (simp add: translate_text_def name joined)
  then have run: "Translator_translate (lit ''hello'') (lit ''ru'') (Some (lit ''en'')) (Translator_init Missing)
     = (\<lparr>tr_source_lang = lit ''auto'', tr_target_lang = lit ''en'',
         tr_history = [TranslationResult_init (lit ''hello'') (lit ''[English] hello'')
                         (lit ''ru'') (lit ''en'')],
         tr_favorites = [],
         tr_file = Saved \<lparr>doc_history = [TranslationResult_init (lit ''hello'')
                                            (lit ''[English] hello'') (lit ''ru'') (lit ''en'')],
                           doc_favorites = []\<rparr>\<rparr>,
        Inr (Some (TranslationResult_init (lit ''hello'') (lit ''[English] hello'') (lit ''ru'') (lit ''en''))))"
    by (simp add: Translator_translate_def Translator_init_def Translator_load_def Translator_save_def
        returning_def result_encodable_def TranslationResult_init_def Let_def)
  have "lit ''['' @ lit ''en'' @ lit ''] '' @ lit ''hello'' = lit ''[en] hello''"
    by (simp add: lit_def)
  then have "r_translated (TranslationResult_init (lit ''hello'') (lit ''[English] hello'') (lit ''ru'') (lit ''en''))
     \<noteq> lit ''['' @ lit ''en'' @ lit ''] '' @ lit ''hello''"
    by (simp add: TranslationResult_init_def)
  with run show ?thesis by blast
qed

text \<open>
  C7, amended. For every non-empty text, \<open>translate\<close> builds a result and puts it in front
  of the history. Its translated field is the text itself when the source language (the
  detected one when the source is \<^verbatim>\<open>'auto'\<close>) equals the target language (the translator's
  own when none is given), and otherwise \<^verbatim>\<open>"[" + name + "] " + text\<close>, where \<open>name\<close> is the
  English name of the target in the table of eleven languages and the target code itself
  for a code outside the table. \<open>translate\<close> returns that result when every string of the
  first fifty results of the history, the new one included, and of the favourites can be
  encoded in UTF-8 (holds no lone surrogate); otherwise it raises the
  \<^verbatim>\<open>UnicodeEncodeError\<close> of \<open>_save\<close>.
\<close>

theorem translate_result:
  assumes "text \<noteq> []"
  shows "\<exists>d. detect_language text = Inr d
       \<and> (let tgt = (case target of None \<Rightarrow> tr_target_lang s | Some t \<Rightarrow> t);
               result =
                 \<lparr> r_original = text,
                   r_translated =
                     (if (if source = lit ''auto'' then d else source) = tgt then text
                      else lit ''[''
                           @ (case map_of lang_names tgt of None \<Rightarrow> tgt | Some name \<Rightarrow> name)
                           @ lit ''] '' @ text),
                   r_source_lang = source,
                   r_target_lang = tgt,
                   r_timestamp = None \<rparr>
            in tr_history (fst (Translator_translate text source target s))
                 = take 100 (result # tr_history s)
               \<and> snd (Translator_translate text source target s)
                 = (if list_all result_encodable (take 50 (result # tr_history s))
                       \<and> list_all result_encodable (tr_favorites s)
                    then Inr (Some result)
                    else Inl UnicodeEncodeError))"
proof -
  from assms obtain d where d: "detect_language text = Inr d"
    using detect_language_total by blast
  have t: "take 50 (take 100 xs) = take 50 xs" for xs :: "TranslationResult list"
    by (simp add: min_def)
  show ?thesis
  proof (cases "source = lit ''auto''")
    case True
    with assms d show ?thesis
      by (simp add: Translator_translate_def translate_text_def dict_get_def Translator_save_def
          returning_def TranslationResult_init_def Let_def t del: take_Suc_Cons)
  next
    case False
    with assms d show ?thesis
      by (simp add: Translator_translate_def translate_text_def dict_get_def Translator_save_def
          returning_def TranslationResult_init_def Let_def t del: take_Suc_Cons)
  qed
qed

theorem translate_result_witness:
  "lit ''hello'' \<noteq> []
   \<and> snd (Translator_translate (lit ''hello'') (lit ''fr'') (Some (lit ''xx'')) (Translator_init Missing))
     = Inr (Some \<lparr> r_original = lit ''hello'',
                    r_translated = lit ''['' @ lit ''xx'' @ lit ''] '' @ lit ''hello'',
                    r_source_lang = lit ''fr'',
                    r_target_lang = lit ''xx'',
                    r_timestamp = None \<rparr>)"
proof -
  have h: "lit ''hello'' \<noteq> []" by simp
  have n: "map_of lang_names (lit ''xx'') = None" by (simp add: lang_names_def)
  have i: "tr_history (Translator_init Missing) = []" "tr_favorites (Translator_init Missing) = []"
    by (simp_all add: Translator_init_def Translator_load_def)
  from translate_result [OF h, where source = "lit ''fr''" and target = "Some (lit ''xx'')"
      and s = "Translator_init Missing"]
  have "snd (Translator_translate (lit ''hello'') (lit ''fr'') (Some (lit ''xx'')) (Translator_init Missing))
     = Inr (Some \<lparr> r_original = lit ''hello'',
                    r_translated = lit ''['' @ lit ''xx'' @ lit ''] '' @ lit ''hello'',
                    r_source_lang = lit ''fr'',
                    r_target_lang = lit ''xx'',
                    r_timestamp = None \<rparr>)"
    by (auto simp: n i Let_def result_encodable_def)
  with h show ?thesis by blast
qed

section \<open>The tracker blocker's decision\<close>

lemma split_not_Nil: "split s sep \<noteq> []"
  by (induction s) (auto split: list.splits)

lemma length_split: "length (split s sep) = Suc (length (filter (\<lambda>c. c = sep) s))"
proof (induction s)
  case Nil
  show ?case by simp
next
  case (Cons c cs)
  then show ?case
    using split_not_Nil [of cs sep] by (cases "split cs sep") auto
qed

lemma scheme_two_slashes:
  assumes "str_in (lit ''://'') url"
  shows "2 < length (split url 47)"
proof -
  from assms obtain pre suf where "url = pre @ lit ''://'' @ suf"
    by (auto simp: str_in_iff)
  then have "length (filter (\<lambda>c. c = 47) url) \<ge> 2"
    by (simp add: lit_def)
  then show ?thesis by (simp add: length_split)
qed

lemma extract_domain_total: "\<exists>domain. extract_domain url = Inr domain"
proof -
  have first: "\<exists>d. getitem (split s sep) 0 = Inr d" for s sep
    using split_not_Nil [of s sep] by (simp add: getitem_def)
  show ?thesis
  proof (cases "str_in (lit ''://'') url")
    case True
    then have "getitem (split url 47) 2 = Inr (split url 47 ! 2)"
      using scheme_two_slashes by (simp add: getitem_def)
    with True first [of "split url 47 ! 2" 58] show ?thesis
      by (auto simp: extract_domain_def)
  next
    case False
    from first [of url 47] obtain d where "getitem (split url 47) 0 = Inr d" by blast
    with False first [of d 58] show ?thesis
      by (auto simp: extract_domain_def)
  qed
qed

lemma filters_loop_find:
  "filters_loop url fs = find (\<lambda>f. re_match (tp_compiled f) url) fs"
  by (induction fs) auto

lemma record_block_counts:
  "total_blocked (tb_stats (record_block domain category s)) = total_blocked (tb_stats s) + 1"
  "by_category (tb_stats (record_block domain category s)) category
     = Some ((case by_category (tb_stats s) category of None \<Rightarrow> 0 | Some n \<Rightarrow> n) + 1)"
  "by_domain (tb_stats (record_block domain category s)) domain
     = Some ((case by_domain (tb_stats s) domain of None \<Rightarrow> 0 | Some n \<Rightarrow> n) + 1)"
  "map_option tk_blocked_count (tb_trackers (record_block domain category s) domain)
     = Some ((case tb_trackers s domain of None \<Rightarrow> 0 | Some t \<Rightarrow> tk_blocked_count t) + 1)"
  by (simp_all add: record_block_def bump_def Let_def Tracker_init_def split: option.splits)

text \<open>
  C1. \<open>should_block\<close> never raises: the domain of every url can be extracted. Its answer
  is decided in this order: allow when the blocker is disabled; allow when the domain is
  whitelisted; block, with no pattern, when the domain is in the blocked set, recording a
  hit for the domain under the category \<^verbatim>\<open>'manual'\<close>; otherwise block with the first filter
  of the list whose pattern matches the url, recording a hit under that filter's category;
  allow, with the state unchanged, when no filter matches. Recording a hit raises the
  total, the count of the category, the count of the domain and the count of the domain's
  tracker by one each.
\<close>

theorem should_block_order:
  "\<exists>domain. extract_domain url = Inr domain
     \<and> should_block url page_domain s
       = Inr (if \<not> tb_enabled s then (s, False, None)
              else if domain \<in> tb_whitelist s then (s, False, None)
              else if domain \<in> tb_blocked_domains s
              then (record_block domain (lit ''manual'') s, True, None)
              else (case find (\<lambda>f. re_match (tp_compiled f) url) (tb_filters s) of
                      Some f \<Rightarrow> (record_block domain (tp_category f) s, True, Some f)
                    | None \<Rightarrow> (s, False, None)))
     \<and> total_blocked (tb_stats (record_block domain category s)) = total_blocked (tb_stats s) + 1
     \<and> by_category (tb_stats (record_block domain category s)) category
         = Some ((case by_category (tb_stats s) category of None \<Rightarrow> 0 | Some n \<Rightarrow> n) + 1)
     \<and> by_domain (tb_stats (record_block domain category s)) domain
         = Some ((case by_domain (tb_stats s) domain of None \<Rightarrow> 0 | Some n \<Rightarrow> n) + 1)
     \<and> map_option tk_blocked_count (tb_trackers (record_block domain category s) domain)
         = Some ((case tb_trackers s domain of None \<Rightarrow> 0 | Some t \<Rightarrow> tk_blocked_count t) + 1)"
proof -
  obtain domain where d: "extract_domain url = Inr domain"
    using extract_domain_total by blast
  have "should_block url page_domain s
       = Inr (if \<not> tb_enabled s then (s, False, None)
              else if domain \<in> tb_whitelist s then (s, False, None)
              else if domain \<in> tb_blocked_domains s
              then (record_block domain (lit ''manual'') s, True, None)
              else (case find (\<lambda>f. re_match (tp_compiled f) url) (tb_filters s) of
                      Some f \<Rightarrow> (record_block domain (tp_category f) s, True, Some f)
                    | None \<Rightarrow> (s, False, None)))"
    by (simp add: should_block_def d filters_loop_find split: option.splits)
  with d record_block_counts [of domain category s] show ?thesis by blast
qed

theorem should_block_order_witness:
  "(case should_block (lit ''HTTP://tracker.example/p'') [] example_blocker of
      Inl e \<Rightarrow> False
    | Inr (s1, blocked, f) \<Rightarrow>
        blocked \<and> map_option tp_pattern f = Some (lit ''http://track'')
        \<and> total_blocked (tb_stats s1) = 1
        \<and> by_category (tb_stats s1) (lit ''analytics'') = Some 1
        \<and> by_domain (tb_stats s1) (lit ''tracker.example'') = Some 1)"
proof -
  let ?url = "lit ''HTTP://tracker.example/p''"
  let ?f = "\<lparr>tp_pattern = lit ''http://track'', tp_compiled = compile_literal (lit ''http://track''),
             tp_category = lit ''analytics'', tp_description = []\<rparr>"
  have dom: "extract_domain ?url = Inr (lit ''tracker.example'')"
    by (simp add: extract_domain_def getitem_def startswith_def lit_def)
  have m: "re_match (compile_literal (lit ''http://track'')) ?url"
    by (simp add: compile_literal_def startswith_def ascii_lower_def lit_def)
  have fs: "tb_filters example_blocker = [?f,
      \<lparr>tp_pattern = lit ''http://'', tp_compiled = compile_literal (lit ''http://''),
        tp_category = lit ''advertising'', tp_description = []\<rparr>]"
    by (simp add: example_blocker_def)
  have found: "find (\<lambda>f. re_match (tp_compiled f) ?url) (tb_filters example_blocker) = Some ?f"
    unfolding fs using m by simp
  have st: "tb_enabled example_blocker"
    "lit ''tracker.example'' \<notin> tb_whitelist example_blocker"
    "lit ''tracker.example'' \<notin> tb_blocked_domains example_blocker"
    "total_blocked (tb_stats example_blocker) = 0"
    "by_category (tb_stats example_blocker) = Map.empty"
    "by_domain (tb_stats example_blocker) = Map.empty"
    by (simp_all add: example_blocker_def)
  from should_block_order [of ?url "[]" example_blocker "lit ''analytics''"]
  obtain domain where d: "extract_domain ?url = Inr domain"
    and run: "should_block ?url [] example_blocker
       = Inr (if \<not> tb_enabled example_blocker then (example_blocker, False, None)
              else if domain \<in> tb_whitelist example_blocker then (example_blocker, False, None)
              else if domain \<in> tb_blocked_domains example_blocker
              then (record_block domain (lit ''manual'') example_blocker, True, None)
              else (case find (\<lambda>f. re_match (tp_compiled f) ?url) (tb_filters example_blocker) of
                      Some f \<Rightarrow> (record_block domain (tp_category f) example_blocker, True, Some f)
                    | None \<Rightarrow> (example_blocker, False, None)))"
    and c1: "total_blocked (tb_stats (record_block domain (lit ''analytics'') example_blocker))
         = total_blocked (tb_stats example_blocker) + 1"
    and c2: "by_category (tb_stats (record_block domain (lit ''analytics'') example_blocker)) (lit ''analytics'')
         = Some ((case by_category (tb_stats example_blocker) (lit ''analytics'') of
                    None \<Rightarrow> 0 | Some n \<Rightarrow> n) + 1)"
    and c3: "by_domain (tb_stats (record_block domain (lit ''analytics'') example_blocker)) domain
         = Some ((case by_domain (tb_stats example_blocker) domain of None \<Rightarrow> 0 | Some n \<Rightarrow> n) + 1)"
    by blast
  from d dom have domain: "domain = lit ''tracker.example''" by simp
  have "should_block ?url [] example_blocker
      = Inr (record_block (lit ''tracker.example'') (lit ''analytics'') example_blocker, True, Some ?f)"
    unfolding run domain found using st(1-3) by simp
  then show ?thesis
    using c1 c2 c3 st(4-6) unfolding domain by simp
qed

section \<open>The schedule of the site blocker\<close>

text \<open>
  C4. When the blocker is enabled, the schedule is switched on and the schedule is
  inactive (the day of the week is not among the scheduled days, or both bounds parse and
  the time of day lies outside them), \<open>should_block\<close> allows every url and leaves the
  state as it is, whatever the rules are.
\<close>

theorem schedule_inactive_allows:
  assumes "sb_enabled s" and "sb_schedule_enabled s"
    and "c_weekday now \<notin> set (sb_schedule_days s)
         \<or> (\<exists>start end_hm. strptime (sb_schedule_start s) = Some start
                \<and> strptime (sb_schedule_end s) = Some end_hm
                \<and> \<not> (time_le (time_of start) (c_time now) \<and> time_le (c_time now) (time_of end_hm)))"
  shows "SiteBlocker_should_block lower strptime now now1 now2 url s = Inr (s, False, None)"
proof -
  from assms(3) have "is_schedule_active strptime now s = Inr False"
    by (auto simp: is_schedule_active_def Let_def)
  with assms(1,2) show ?thesis
    by (simp add: SiteBlocker_should_block_def)
qed

theorem schedule_inactive_allows_witness:
  "matches ascii_lower (hd (sb_rules example_site_blocker)) (lit ''https://www.facebook.com/'')
   \<and> parse_HM (lit ''09:00'') = Some (9, 0) \<and> parse_HM (lit ''17:00'') = Some (17, 0)
   \<and> SiteBlocker_should_block ascii_lower parse_HM
        \<lparr>c_weekday = 0, c_time = \<lparr>td_hour = 18, td_minute = 30, td_second = 0, td_microsecond = 0\<rparr>\<rparr>
        (lit ''t1'') (lit ''t2'') (lit ''https://www.facebook.com/'') example_site_blocker
      = Inr (example_site_blocker, False, None)
   \<and> SiteBlocker_should_block ascii_lower parse_HM
        \<lparr>c_weekday = 5, c_time = \<lparr>td_hour = 10, td_minute = 0, td_second = 0, td_microsecond = 0\<rparr>\<rparr>
        (lit ''t1'') (lit ''t2'') (lit ''https://www.facebook.com/'') example_site_blocker
      = Inr (example_site_blocker, False, None)"
proof -
  have m: "matches ascii_lower (hd (sb_rules example_site_blocker)) (lit ''https://www.facebook.com/'')"
    by (simp add: example_site_blocker_def BlockRule_init_def matches_def ascii_lower_def
        startswith_def lit_def)
  have p1: "parse_HM (lit ''09:00'') = Some (9, 0)"
    by (simp add: parse_HM_def digit_def lit_def)
  have p2: "parse_HM (lit ''17:00'') = Some (17, 0)"
    by (simp add: parse_HM_def digit_def lit_def)
  have st: "sb_enabled example_site_blocker" "sb_schedule_enabled example_site_blocker"
    "sb_schedule_start example_site_blocker = lit ''09:00''"
    "sb_schedule_end example_site_blocker = lit ''17:00''"
    "sb_schedule_days example_site_blocker = [0, 1, 2, 3, 4]"
    by (simp_all add: example_site_blocker_def)
  let ?late = "\<lparr>c_weekday = 0, c_time = \<lparr>td_hour = 18, td_minute = 30, td_second = 0, td_microsecond = 0\<rparr>\<rparr>"
  let ?sat = "\<lparr>c_weekday = 5, c_time = \<lparr>td_hour = 10, td_minute = 0, td_second = 0, td_microsecond = 0\<rparr>\<rparr>"
  have h1: "c_weekday ?late \<notin> set (sb_schedule_days example_site_blocker)
         \<or> (\<exists>start end_hm. parse_HM (sb_schedule_start example_site_blocker) = Some start
                \<and> parse_HM (sb_schedule_end example_site_blocker) = Some end_hm
                \<and> \<not> (time_le (time_of start) (c_time ?late) \<and> time_le (c_time ?late) (time_of end_hm)))"
    by (simp add: st p1 p2 time_le_def time_of_def)
  have h2: "c_weekday ?sat \<notin> set (sb_schedule_days example_site_blocker)
         \<or> (\<exists>start end_hm. parse_HM (sb_schedule_start example_site_blocker) = Some start
                \<and> parse_HM (sb_schedule_end example_site_blocker) = Some end_hm
                \<and> \<not> (time_le (time_of start) (c_time ?sat) \<and> time_le (c_time ?sat) (time_of end_hm)))"
    by (simp add: st)
  from m p1 p2 schedule_inactive_allows [OF st(1,2) h1] schedule_inactive_allows [OF st(1,2) h2]
  show ?thesis by blast
qed

section \<open>Constructing a tracker blocker\<close>

lemma eval_calls_stops:
  assumes "\<forall>c \<in> set pre. \<exists>f. eval_call rc c = Inr f" and "eval_call rc c = Inl e"
  shows "eval_calls rc (pre @ c # post) = Inl e"
  using assms by (induction pre) auto

lemma eval_calls_fails:
  assumes "c \<in> set cs" and "eval_call rc c = Inl e"
  shows "\<exists>e'. eval_calls rc cs = Inl e'"
  using assms by (induction cs) (auto split: sum.splits)

lemma eval_call_compiles:
  assumes "call_name c = ''TrackerPattern''" and "re_compile (call_pattern c) = Inr m"
  shows "\<exists>f. eval_call re_compile c = Inr f"
  using assms by (cases c) (simp add: module_globals_def TrackerPattern_init_def)

lemma unbound_name:
  "eval_call re_compile (Call ''TrackerTrackerPattern'' p c d) = Inl (NameError (lit ''TrackerTrackerPattern''))"
  by (simp add: module_globals_def)

lemma filters_length: "length default_filter_calls = 58"
  by (simp add: default_filter_calls_def)

lemma filters_before: "\<forall>c \<in> set (take 50 default_filter_calls). call_name c = ''TrackerPattern''"
  by (simp add: default_filter_calls_def)

lemma filters_bad:
  "default_filter_calls ! 50
     = Call ''TrackerTrackerPattern'' [''.*'', ''.bidswitch'', ''.net''] ''advertising'' ''BidSwitch''"
  by (simp add: default_filter_calls_def)

text \<open>
  C2. \<^verbatim>\<open>TrackerBlocker.__init__\<close> never returns an instance, whatever \<^verbatim>\<open>re.compile\<close> does:
  the list of default filters holds a call of the unbound name \<^verbatim>\<open>TrackerTrackerPattern\<close>.
  When the patterns of the fifty elements before that call compile, the exception raised is
  the \<^verbatim>\<open>NameError\<close> of that name.
\<close>

theorem construction_fails:
  "(\<forall>s. TrackerBlocker_init re_compile \<noteq> Inr s)
   \<and> ((\<forall>c \<in> set (take 50 default_filter_calls). \<exists>m. re_compile (call_pattern c) = Inr m)
        \<longrightarrow> TrackerBlocker_init re_compile = Inl (NameError (lit ''TrackerTrackerPattern'')))"
proof -
  let ?bad = "Call ''TrackerTrackerPattern'' [''.*'', ''.bidswitch'', ''.net''] ''advertising'' ''BidSwitch''"
  have split: "default_filter_calls
      = take 50 default_filter_calls @ ?bad # drop 51 default_filter_calls"
    using id_take_nth_drop [of 50 default_filter_calls] by (simp add: filters_length filters_bad)
  then have "?bad \<in> set default_filter_calls"
    by (metis in_set_conv_decomp)
  then obtain e where "eval_calls re_compile default_filter_calls = Inl e"
    using eval_calls_fails [OF _ unbound_name] by blast
  then have never: "\<forall>s. TrackerBlocker_init re_compile \<noteq> Inr s"
    by (simp add: TrackerBlocker_init_def load_default_filters_def)
  have named: "TrackerBlocker_init re_compile = Inl (NameError (lit ''TrackerTrackerPattern''))"
    if ok: "\<forall>c \<in> set (take 50 default_filter_calls). \<exists>m. re_compile (call_pattern c) = Inr m"
  proof -
    have "\<forall>c \<in> set (take 50 default_filter_calls). \<exists>f. eval_call re_compile c = Inr f"
      using ok filters_before eval_call_compiles by blast
    then have "eval_calls re_compile (take 50 default_filter_calls @ ?bad # drop 51 default_filter_calls)
        = Inl (NameError (lit ''TrackerTrackerPattern''))"
      using unbound_name by (rule eval_calls_stops)
    with split have "eval_calls re_compile default_filter_calls
        = Inl (NameError (lit ''TrackerTrackerPattern''))"
      by simp
    then show ?thesis
      by (simp add: TrackerBlocker_init_def load_default_filters_def)
  qed
  from never named show ?thesis by blast
qed

theorem construction_fails_witness:
  "TrackerBlocker_init (\<lambda>p. Inr (compile_literal p)) = Inl (NameError (lit ''TrackerTrackerPattern''))"
  using construction_fails [of "\<lambda>p. Inr (compile_literal p)"] by simp

end
